theory Spec2Isabelle
  imports Main "HOL-Library.Word"
begin

unbundle bit_operations_syntax

section \<open>Memory, allocation and files as the C code sees them\<close>

text \<open>
  The arrays of \<^verbatim>\<open>osmway.c\<close> and \<^verbatim>\<open>osmdata.c\<close> are untyped bytes to every function that
  handles them (\<^verbatim>\<open>memset\<close>, \<^verbatim>\<open>memcpy\<close>, \<^verbatim>\<open>fwrite\<close>, \<^verbatim>\<open>fread\<close>), and no function is told
  how long an array is. The model therefore keeps one flat byte memory: byte \<open>a\<close> of
  the list is the byte at address \<open>a\<close>, a pointer is an address, and address 0 is the
  null pointer, which no access may touch. An access that leaves the mapped bytes has
  no defined result in C; the model records it as a \<open>fault\<close> (the process does not
  continue). A fault is not an error code: none of the functions returns one.
\<close>

type_synonym byte = "8 word"
type_synonym addr = nat

datatype fault = NullPointer | Unmapped | Overlap

record heap =
  cells :: "byte list"
  cap :: nat
  junk :: "nat \<Rightarrow> byte"

text \<open>Addresses are 64 bits wide, so memory is the first \<open>2 ^ 64\<close> cells at most:
  \<open>bytes h\<close> are the mapped bytes. \<open>limit h\<close> is the address beyond which \<^verbatim>\<open>malloc\<close> fails,
  the allocator's own cap or the end of the address space; \<open>junk a\<close> is the
  indeterminate content found at address \<open>a\<close> of fresh memory.\<close>

definition bytes :: "heap \<Rightarrow> byte list" where
  "bytes h = take (2 ^ 64) (cells h)"

definition limit :: "heap \<Rightarrow> nat" where
  "limit h = min (2 ^ 64) (cap h)"

definition valid :: "heap \<Rightarrow> addr \<Rightarrow> nat \<Rightarrow> bool" where
  "valid h p n = (n = 0 \<or> (0 < p \<and> p + n \<le> length (bytes h)))"

definition load :: "heap \<Rightarrow> addr \<Rightarrow> nat \<Rightarrow> byte list" where
  "load h p n = take n (drop p (bytes h))"

definition store :: "heap \<Rightarrow> addr \<Rightarrow> byte list \<Rightarrow> heap" where
  "store h p bs = h\<lparr>cells := take p (bytes h) @ bs @ drop (p + length bs) (bytes h)\<rparr>"

definition bad_access :: "addr \<Rightarrow> fault" where
  "bad_access p = (if p = 0 then NullPointer else Unmapped)"

definition memset :: "heap \<Rightarrow> addr \<Rightarrow> byte \<Rightarrow> nat \<Rightarrow> fault + heap" where
  "memset h p c n =
     (if valid h p n then Inr (store h p (replicate n c)) else Inl (bad_access p))"

text \<open>\<^verbatim>\<open>memcpy\<close>: both regions must be mapped; copying between overlapping regions is
  undefined in C.\<close>

definition memcpy :: "heap \<Rightarrow> addr \<Rightarrow> addr \<Rightarrow> nat \<Rightarrow> fault + heap" where
  "memcpy h dst src n =
     (if \<not> valid h dst n then Inl (bad_access dst)
      else if \<not> valid h src n then Inl (bad_access src)
      else if 0 < n \<and> dst < src + n \<and> src < dst + n then Inl Overlap
      else Inr (store h dst (load h src n)))"

text \<open>\<^verbatim>\<open>malloc\<close> hands out fresh, 16-aligned memory past the mapped bytes, holding
  whatever \<open>junk\<close> says, or returns the null pointer when the limit is reached.\<close>

definition fresh :: "heap \<Rightarrow> addr" where
  "fresh h = 16 * (length (bytes h) div 16 + 1)"

definition malloc :: "heap \<Rightarrow> nat \<Rightarrow> heap \<times> addr" where
  "malloc h n =
     (if limit h < fresh h + n then (h, 0)
      else (h\<lparr>cells := bytes h @ map (junk h) [length (bytes h)..<fresh h + n]\<rparr>, fresh h))"

text \<open>Pointer arithmetic is done in 64 bits: \<open>ptr_add p k\<close> is the address \<open>k\<close> bytes after
  \<open>p\<close>, and \<open>slot s index sz\<close> is the address of \<^verbatim>\<open>s[index]\<close> (also written \<^verbatim>\<open>s + index\<close>) for
  elements of \<open>sz\<close> bytes. Both wrap around at \<open>2 ^ 64\<close>.\<close>

definition ptr_add :: "addr \<Rightarrow> nat \<Rightarrow> addr" where
  "ptr_add p k = (p + k) mod 2 ^ 64"

definition slot :: "addr \<Rightarrow> 64 word \<Rightarrow> nat \<Rightarrow> addr" where
  "slot s index sz = ptr_add s (unat index * sz)"

text \<open>\<^verbatim>\<open>size_t\<close> is 64 bits wide: a product of sizes wraps.\<close>

definition size_mul :: "nat \<Rightarrow> 64 word \<Rightarrow> nat" where
  "size_mul sz count = unat (word_of_nat sz * count)"

text \<open>
  The file system: the content of each existing file, the paths that cannot be opened
  (no permission, no such directory), and how many more bytes the device accepts.
  A \<^verbatim>\<open>FILE *\<close> is \<open>None\<close> (the null pointer) or a path with a position.
\<close>

record filesys =
  files :: "string \<rightharpoonup> byte list"
  denied :: "string \<Rightarrow> bool"
  room :: nat

type_synonym stream = "(string \<times> nat) option"

definition content :: "filesys \<Rightarrow> string \<Rightarrow> byte list" where
  "content fs path = (case files fs path of None \<Rightarrow> [] | Some bs \<Rightarrow> bs)"

definition fopen :: "filesys \<Rightarrow> string \<Rightarrow> string \<Rightarrow> filesys \<times> stream" where
  "fopen fs fileName mode =
     (if denied fs fileName then (fs, None)
      else if mode = ''wb'' then (fs\<lparr>files := (files fs)(fileName \<mapsto> [])\<rparr>, Some (fileName, 0))
      else if mode = ''rb'' \<and> files fs fileName \<noteq> None then (fs, Some (fileName, 0))
      else (fs, None))"

text \<open>\<^verbatim>\<open>fwrite(ptr, size, nmemb, stream)\<close> reads \<open>size * nmemb\<close> bytes of memory and writes
  as many of them as the device accepts; it returns the number of whole items written.\<close>

definition fwrite ::
  "heap \<Rightarrow> filesys \<Rightarrow> addr \<Rightarrow> nat \<Rightarrow> nat \<Rightarrow> stream \<Rightarrow> fault + (filesys \<times> stream \<times> nat)" where
  "fwrite h fs ptr sz nmemb f =
     (case f of
        None \<Rightarrow> Inl NullPointer
      | Some (path, pos) \<Rightarrow>
          if \<not> valid h ptr (sz * nmemb) then Inl (bad_access ptr)
          else
            let written = take (room fs) (load h ptr (sz * nmemb));
                old = content fs path
            in Inr (fs\<lparr>files := (files fs)(path \<mapsto>
                          take pos old @ written @ drop (pos + length written) old),
                       room := room fs - length written\<rparr>,
                    Some (path, pos + length written),
                    length written div sz))"

definition fclose :: "stream \<Rightarrow> fault + unit" where
  "fclose f = (case f of None \<Rightarrow> Inl NullPointer | Some _ \<Rightarrow> Inr ())"

text \<open>\<^verbatim>\<open>fseek(f, 0, SEEK_END)\<close> and \<^verbatim>\<open>fseek(f, 0, SEEK_SET)\<close>, the two calls the code makes.\<close>

datatype whence = SEEK_SET | SEEK_END

definition fseek :: "filesys \<Rightarrow> stream \<Rightarrow> nat \<Rightarrow> whence \<Rightarrow> fault + stream" where
  "fseek fs f off w =
     (case f of
        None \<Rightarrow> Inl NullPointer
      | Some (path, pos) \<Rightarrow>
          Inr (Some (path, (case w of SEEK_SET \<Rightarrow> off
                                    | SEEK_END \<Rightarrow> length (content fs path) + off))))"

text \<open>\<^verbatim>\<open>ftell\<close> returns a \<^verbatim>\<open>long\<close>; dividing it by a \<^verbatim>\<open>size_t\<close> converts it to 64 unsigned bits.\<close>

definition ftell :: "stream \<Rightarrow> fault + 64 word" where
  "ftell f = (case f of None \<Rightarrow> Inl NullPointer | Some (path, pos) \<Rightarrow> Inr (word_of_nat pos))"

text \<open>\<^verbatim>\<open>fread(ptr, size, nmemb, stream)\<close> copies the bytes the file still has, at most
  \<open>size * nmemb\<close>, to memory; it returns the number of whole items read.\<close>

definition fread ::
  "heap \<Rightarrow> filesys \<Rightarrow> addr \<Rightarrow> nat \<Rightarrow> nat \<Rightarrow> stream \<Rightarrow> fault + (heap \<times> stream \<times> nat)" where
  "fread h fs ptr sz nmemb f =
     (case f of
        None \<Rightarrow> Inl NullPointer
      | Some (path, pos) \<Rightarrow>
          let got = take (sz * nmemb) (drop pos (content fs path)) in
          if \<not> valid h ptr (length got) then Inl (bad_access ptr)
          else Inr (store h ptr got, Some (path, pos + length got), length got div sz))"

section \<open>The record layouts of \<^verbatim>\<open>valhalla.h\<close>\<close>

text \<open>
  A struct is its member list, in declaration order: a plain member of an integer type,
  a bit-field of a declared type and width, or an embedded struct (given by its size
  and alignment in bits). The layout is that of the 64-bit little-endian C ABIs: a
  plain member is aligned to its size; a bit-field takes the next free bits unless it
  would cross a boundary of its declared type, in which case it starts at that
  boundary; the struct is padded to a multiple of its largest alignment. A member is
  then a bit range \<open>(position, width)\<close> of the object read as one little-endian number.
\<close>

datatype ctype = U8 | I8 | U16 | U32 | U64

fun ctype_bits :: "ctype \<Rightarrow> nat" where
  "ctype_bits U8 = 8"
| "ctype_bits I8 = 8"
| "ctype_bits U16 = 16"
| "ctype_bits U32 = 32"
| "ctype_bits U64 = 64"

datatype member = Plain string ctype | Bits string ctype nat | Struct string nat nat

fun member_name :: "member \<Rightarrow> string" where
  "member_name (Plain n t) = n"
| "member_name (Bits n t w) = n"
| "member_name (Struct n sz al) = n"

fun member_width :: "member \<Rightarrow> nat" where
  "member_width (Plain n t) = ctype_bits t"
| "member_width (Bits n t w) = w"
| "member_width (Struct n sz al) = sz"

fun member_align :: "member \<Rightarrow> nat" where
  "member_align (Plain n t) = ctype_bits t"
| "member_align (Bits n t w) = ctype_bits t"
| "member_align (Struct n sz al) = al"

definition round_up :: "nat \<Rightarrow> nat \<Rightarrow> nat" where
  "round_up n u = ((n + u - 1) div u) * u"

fun member_start :: "nat \<Rightarrow> member \<Rightarrow> nat" where
  "member_start pos (Bits n t w) =
     (if pos div ctype_bits t = (pos + w - 1) div ctype_bits t then pos
      else round_up pos (ctype_bits t))"
| "member_start pos m = round_up pos (member_align m)"

fun layout :: "nat \<Rightarrow> member list \<Rightarrow> (string \<times> nat \<times> nat) list" where
  "layout pos [] = []"
| "layout pos (m # ms) =
     (member_name m, member_start pos m, member_width m) #
     layout (member_start pos m + member_width m) ms"

fun layout_end :: "nat \<Rightarrow> member list \<Rightarrow> nat" where
  "layout_end pos [] = pos"
| "layout_end pos (m # ms) = layout_end (member_start pos m + member_width m) ms"

definition alignof_bits :: "member list \<Rightarrow> nat" where
  "alignof_bits ms = foldr (\<lambda>m a. max (member_align m) a) ms 8"

definition sizeof :: "member list \<Rightarrow> nat" where
  "sizeof ms = round_up (layout_end 0 ms) (alignof_bits ms) div 8"

definition field :: "member list \<Rightarrow> string \<Rightarrow> (nat \<times> nat) option" where
  "field ms name = map_of (layout 0 ms) name"

definition offsetof :: "member list \<Rightarrow> string \<Rightarrow> nat" where
  "offsetof ms name = (case field ms name of None \<Rightarrow> 0 | Some (p, w) \<Rightarrow> p div 8)"

definition OSMWay :: "member list" where
  "OSMWay =
    [Plain ''osmwayid_'' U64, Plain ''ref_index_'' U32, Plain ''ref_lang_index_'' U32,
     Plain ''ref_left_index_'' U32, Plain ''ref_left_lang_index_'' U32,
     Plain ''ref_right_index_'' U32, Plain ''ref_right_lang_index_'' U32,
     Plain ''int_ref_index_'' U32, Plain ''int_ref_lang_index_'' U32,
     Plain ''int_ref_left_index_'' U32, Plain ''int_ref_left_lang_index_'' U32,
     Plain ''int_ref_right_index_'' U32, Plain ''int_ref_right_lang_index_'' U32,
     Plain ''name_index_'' U32, Plain ''name_lang_index_'' U32, Plain ''name_left_index_'' U32,
     Plain ''name_left_lang_index_'' U32, Plain ''name_right_index_'' U32,
     Plain ''name_right_lang_index_'' U32, Plain ''name_forward_index_'' U32,
     Plain ''name_forward_lang_index_'' U32, Plain ''name_backward_index_'' U32,
     Plain ''name_backward_lang_index_'' U32, Plain ''alt_name_index_'' U32,
     Plain ''alt_name_lang_index_'' U32, Plain ''alt_name_left_index_'' U32,
     Plain ''alt_name_left_lang_index_'' U32, Plain ''alt_name_right_index_'' U32,
     Plain ''alt_name_right_lang_index_'' U32, Plain ''official_name_index_'' U32,
     Plain ''official_name_lang_index_'' U32, Plain ''official_name_left_index_'' U32,
     Plain ''official_name_left_lang_index_'' U32, Plain ''official_name_right_index_'' U32,
     Plain ''official_name_right_lang_index_'' U32, Plain ''tunnel_name_index_'' U32,
     Plain ''tunnel_name_lang_index_'' U32, Plain ''tunnel_name_left_index_'' U32,
     Plain ''tunnel_name_left_lang_index_'' U32, Plain ''tunnel_name_right_index_'' U32,
     Plain ''tunnel_name_right_lang_index_'' U32, Plain ''fwd_turn_lanes_index_'' U32,
     Plain ''bwd_turn_lanes_index_'' U32, Plain ''fwd_jct_base_index_'' U32,
     Plain ''bwd_jct_base_index_'' U32, Plain ''fwd_jct_overlay_index_'' U32,
     Plain ''bwd_jct_overlay_index_'' U32, Plain ''fwd_signboard_base_index_'' U32,
     Plain ''bwd_signboard_base_index_'' U32, Plain ''destination_index_'' U32,
     Plain ''destination_lang_index_'' U32, Plain ''destination_forward_index_'' U32,
     Plain ''destination_backward_index_'' U32, Plain ''destination_forward_lang_index_'' U32,
     Plain ''destination_backward_lang_index_'' U32, Plain ''destination_ref_index_'' U32,
     Plain ''destination_ref_lang_index_'' U32, Plain ''destination_ref_to_index_'' U32,
     Plain ''destination_ref_to_lang_index_'' U32, Plain ''destination_int_ref_index_'' U32,
     Plain ''destination_int_ref_to_index_'' U32, Plain ''destination_street_index_'' U32,
     Plain ''destination_street_lang_index_'' U32, Plain ''destination_street_to_index_'' U32,
     Plain ''destination_street_to_lang_index_'' U32, Plain ''junction_name_index_'' U32,
     Plain ''junction_name_lang_index_'' U32, Plain ''junction_ref_index_'' U32,
     Plain ''junction_ref_lang_index_'' U32, Plain ''level_index_'' U32,
     Plain ''level_ref_index_'' U32, Plain ''duration_'' U32, Bits ''destination_only_'' U32 1,
     Bits ''no_thru_traffic_'' U32 1, Bits ''oneway_'' U32 1, Bits ''oneway_reverse_'' U32 1,
     Bits ''roundabout_'' U32 1, Bits ''ferry_'' U32 1, Bits ''rail_'' U32 1,
     Bits ''surface_'' U32 3, Bits ''tunnel_'' U32 1, Bits ''toll_'' U32 1,
     Bits ''bridge_'' U32 1, Bits ''seasonal_'' U32 1, Bits ''drive_on_right_'' U32 1,
     Bits ''bike_network_'' U32 4, Bits ''exit_'' U32 1, Bits ''tagged_speed_'' U32 1,
     Bits ''forward_tagged_speed_'' U32 1, Bits ''backward_tagged_speed_'' U32 1,
     Bits ''tagged_lanes_'' U32 1, Bits ''forward_tagged_lanes_'' U32 1,
     Bits ''backward_tagged_lanes_'' U32 1, Bits ''truck_route_'' U32 1,
     Bits ''sidewalk_right_'' U32 1, Bits ''sidewalk_left_'' U32 1, Bits ''sac_scale_'' U32 3,
     Bits ''road_class_'' U32 3, Bits ''link_'' U32 1, Bits ''use_'' U32 6,
     Bits ''lanes_'' U32 4, Bits ''forward_lanes_'' U32 4, Bits ''backward_lanes_'' U32 4,
     Bits ''turn_channel_'' U32 1, Bits ''wheelchair_'' U32 1, Bits ''wheelchair_tag_'' U32 1,
     Bits ''has_user_tags_'' U32 1, Bits ''has_pronunciation_tags_'' U32 1,
     Bits ''internal_'' U32 1, Bits ''hov_type_'' U32 1, Bits ''indoor_'' U32 1,
     Bits ''pedestrian_forward_'' U32 1, Bits ''pedestrian_backward_'' U32 1,
     Bits ''auto_forward_'' U16 1, Bits ''bus_forward_'' U16 1, Bits ''taxi_forward_'' U16 1,
     Bits ''truck_forward_'' U16 1, Bits ''motorcycle_forward_'' U16 1,
     Bits ''emergency_forward_'' U16 1, Bits ''hov_forward_'' U16 1,
     Bits ''moped_forward_'' U16 1, Bits ''auto_backward_'' U16 1, Bits ''bus_backward_'' U16 1,
     Bits ''taxi_backward_'' U16 1, Bits ''truck_backward_'' U16 1,
     Bits ''motorcycle_backward_'' U16 1, Bits ''emergency_backward_'' U16 1,
     Bits ''hov_backward_'' U16 1, Bits ''moped_backward_'' U16 1,
     Bits ''cycle_lane_right_'' U16 2, Bits ''cycle_lane_left_'' U16 2,
     Bits ''cycle_lane_right_opposite_'' U16 1, Bits ''cycle_lane_left_opposite_'' U16 1,
     Bits ''shoulder_right_'' U16 1, Bits ''shoulder_left_'' U16 1, Bits ''dismount_'' U16 1,
     Bits ''use_sidepath_'' U16 1, Bits ''bike_forward_'' U16 1, Bits ''bike_backward_'' U16 1,
     Bits ''lit_'' U16 1, Bits ''destination_only_hgv_'' U16 1, Bits ''spare2_'' U16 2,
     Plain ''nodecount_'' U16, Plain ''speed_limit_'' U8, Plain ''speed_'' U8,
     Plain ''backward_speed_'' U8, Plain ''forward_speed_'' U8, Plain ''truck_speed_'' U8,
     Plain ''truck_speed_forward_'' U8, Plain ''truck_speed_backward_'' U8, Plain ''layer_'' I8]"

definition OSMNode :: "member list" where
  "OSMNode =
    [Plain ''osmid_'' U64, Bits ''name_index_'' U64 21, Bits ''ref_index_'' U64 21,
     Bits ''exit_to_index_'' U64 21, Bits ''named_intersection_'' U64 1,
     Bits ''country_iso_index_'' U64 21, Bits ''state_iso_index_'' U64 21,
     Bits ''traffic_signal_'' U64 1, Bits ''forward_signal_'' U64 1,
     Bits ''backward_signal_'' U64 1, Bits ''stop_sign_'' U64 1, Bits ''forward_stop_'' U64 1,
     Bits ''backward_stop_'' U64 1, Bits ''yield_sign_'' U64 1, Bits ''forward_yield_'' U64 1,
     Bits ''backward_yield_'' U64 1, Bits ''minor_'' U64 1, Bits ''direction_'' U64 1,
     Bits ''spare_'' U64 11, Bits ''access_'' U32 12, Bits ''type_'' U32 4,
     Bits ''intersection_'' U32 1, Bits ''non_link_edge_'' U32 1, Bits ''link_edge_'' U32 1,
     Bits ''shortlink_'' U32 1, Bits ''non_ferry_edge_'' U32 1, Bits ''ferry_edge_'' U32 1,
     Bits ''flat_loop_'' U32 1, Bits ''urban_'' U32 1, Bits ''tagged_access_'' U32 1,
     Bits ''private_access_'' U32 1, Bits ''cash_only_toll_'' U32 1, Bits ''spare1_'' U32 5,
     Plain ''bss_info_'' U32, Plain ''linguistic_info_index_'' U32, Plain ''lng7_'' U32,
     Plain ''lat7_'' U32]"

definition OSMWayNode :: "member list" where
  "OSMWayNode =
    [Struct ''node'' (8 * sizeof OSMNode) (alignof_bits OSMNode),
     Plain ''way_index'' U32, Plain ''way_shape_node_index'' U32]"

text \<open>Reading and writing a member of an object held as bytes. A store converts the
  value to the member's width (modulo \<open>2 ^ width\<close>), as C does for unsigned members.\<close>

fun le_nat :: "byte list \<Rightarrow> nat" where
  "le_nat [] = 0"
| "le_nat (b # bs) = unat b + 256 * le_nat bs"

fun nat_le :: "nat \<Rightarrow> nat \<Rightarrow> byte list" where
  "nat_le 0 v = []"
| "nat_le (Suc n) v = word_of_nat (v mod 256) # nat_le n (v div 256)"

definition get_bits :: "byte list \<Rightarrow> nat \<Rightarrow> nat \<Rightarrow> nat" where
  "get_bits obj p w = take_bit w (drop_bit p (le_nat obj))"

definition set_bits :: "byte list \<Rightarrow> nat \<Rightarrow> nat \<Rightarrow> nat \<Rightarrow> byte list" where
  "set_bits obj p w v =
     nat_le (length obj)
       (take_bit p (le_nat obj) OR push_bit p (take_bit w v) OR
        push_bit (p + w) (drop_bit (p + w) (le_nat obj)))"

definition member_val :: "member list \<Rightarrow> byte list \<Rightarrow> string \<Rightarrow> nat" where
  "member_val ms obj name = (case field ms name of None \<Rightarrow> 0 | Some (p, w) \<Rightarrow> get_bits obj p w)"

definition set_member :: "member list \<Rightarrow> byte list \<Rightarrow> string \<Rightarrow> nat \<Rightarrow> byte list" where
  "set_member ms obj name v =
     (case field ms name of None \<Rightarrow> obj | Some (p, w) \<Rightarrow> set_bits obj p w v)"

text \<open>The assignment \<^verbatim>\<open>a->name = v\<close> to the struct at address \<open>a\<close>.\<close>

definition assign :: "member list \<Rightarrow> heap \<Rightarrow> addr \<Rightarrow> string \<Rightarrow> nat \<Rightarrow> fault + heap" where
  "assign ms h a name v =
     (if valid h a (sizeof ms)
      then Inr (store h a (set_member ms (load h a (sizeof ms)) name v))
      else Inl (bad_access a))"

text \<open>A sequence of assignments \<^verbatim>\<open>s[index].f = v;\<close> in source order, stopping at a fault.\<close>

fun assigns :: "member list \<Rightarrow> heap \<Rightarrow> addr \<Rightarrow> (string \<times> nat) list \<Rightarrow> fault + heap" where
  "assigns ms h a [] = Inr h"
| "assigns ms h a ((name, v) # rest) =
     (case assign ms h a name v of Inl e \<Rightarrow> Inl e | Inr h1 \<Rightarrow> assigns ms h1 a rest)"

section \<open>\<^verbatim>\<open>osmway.c\<close>\<close>

definition osmway_new :: "heap \<Rightarrow> 64 word \<Rightarrow> fault + (heap \<times> addr)" where
  "osmway_new h count =
     (case malloc h (size_mul (sizeof OSMWay) count) of
        (h1, output) \<Rightarrow>
          (case memset h1 output 0 (size_mul (sizeof OSMWay) count) of
             Inl e \<Rightarrow> Inl e
           | Inr h2 \<Rightarrow> Inr (h2, output)))"

definition osmway_clear :: "heap \<Rightarrow> addr \<Rightarrow> 64 word \<Rightarrow> fault + heap" where
  "osmway_clear h s count = memset h s 0 (size_mul (sizeof OSMWay) count)"

text \<open>\<^verbatim>\<open>count\<close> is an \<^verbatim>\<open>int\<close>; \<^verbatim>\<open>fwrite\<close> takes it as a \<^verbatim>\<open>size_t\<close>, so it is sign-extended to
  64 bits and read as unsigned. The results of \<^verbatim>\<open>fopen\<close> and \<^verbatim>\<open>fwrite\<close> are not looked at,
  and the function returns 1.\<close>

definition osmway_export ::
  "heap \<Rightarrow> filesys \<Rightarrow> addr \<Rightarrow> 32 word \<Rightarrow> string \<Rightarrow> fault + (filesys \<times> int)" where
  "osmway_export h fs s count fileName =
     (case fopen fs fileName ''wb'' of
        (fs1, outFile) \<Rightarrow>
          (case fwrite h fs1 s (sizeof OSMWay) (unat (scast count :: 64 word)) outFile of
             Inl e \<Rightarrow> Inl e
           | Inr (fs2, outFile2, written) \<Rightarrow>
               (case fclose outFile2 of
                  Inl e \<Rightarrow> Inl e
                | Inr u \<Rightarrow> Inr (fs2, 1))))"

text \<open>The two out-parameters \<^verbatim>\<open>*buffer\<close> and \<^verbatim>\<open>*count\<close> are returned with the new heap.\<close>

definition osmway_import ::
  "heap \<Rightarrow> filesys \<Rightarrow> string \<Rightarrow> fault + (heap \<times> addr \<times> 64 word)" where
  "osmway_import h fs fileName =
     (case fopen fs fileName ''rb'' of
        (fs1, inFile) \<Rightarrow>
          (case fseek fs1 inFile 0 SEEK_END of
             Inl e \<Rightarrow> Inl e
           | Inr inFile1 \<Rightarrow>
               (case ftell inFile1 of
                  Inl e \<Rightarrow> Inl e
                | Inr pos \<Rightarrow>
                    (let count = pos div word_of_nat (sizeof OSMWay) in
                     case fseek fs1 inFile1 0 SEEK_SET of
                       Inl e \<Rightarrow> Inl e
                     | Inr inFile2 \<Rightarrow>
                         (case malloc h (size_mul (sizeof OSMWay) count) of
                            (h1, buffer) \<Rightarrow>
                              (case fread h1 fs1 buffer (sizeof OSMWay) (unat count) inFile2 of
                                 Inl e \<Rightarrow> Inl e
                               | Inr (h2, inFile3, got) \<Rightarrow>
                                   (case fclose inFile3 of
                                      Inl e \<Rightarrow> Inl e
                                    | Inr u \<Rightarrow> Inr (h2, buffer, count))))))))"

text \<open>\<^verbatim>\<open>s + index\<close> and \<^verbatim>\<open>s[index]\<close> are the address \<open>slot s index sizeof\<close>; the function has
  no count to compare the index with.\<close>

definition osmway_set_to_valhalla ::
  "heap \<Rightarrow> addr \<Rightarrow> 64 word \<Rightarrow> 64 word \<Rightarrow> 64 word \<Rightarrow> 64 word \<Rightarrow> fault + heap" where
  "osmway_set_to_valhalla h s index osmid name_index nodecount =
     (case memset h (slot s index (sizeof OSMWay)) 0 (sizeof OSMWay) of
        Inl e \<Rightarrow> Inl e
      | Inr h1 \<Rightarrow>
          assigns OSMWay h1 (slot s index (sizeof OSMWay))
            [(''osmwayid_'', unat osmid),
             (''name_index_'', unat name_index),
             (''nodecount_'', unat nodecount),
             (''surface_'', 3),
             (''drive_on_right_'', 1),
             (''road_class_'', 7),
             (''use_'', 25),
             (''has_user_tags_'', 0),
             (''pedestrian_forward_'', 1),
             (''pedestrian_backward_'', 1),
             (''speed_'', 25)])"

section \<open>\<^verbatim>\<open>osmdata.c\<close>\<close>

definition osmwaynode_new :: "heap \<Rightarrow> 64 word \<Rightarrow> fault + (heap \<times> addr)" where
  "osmwaynode_new h count =
     (case malloc h (size_mul (sizeof OSMWayNode) count) of
        (h1, output) \<Rightarrow>
          (case memset h1 output 0 (size_mul (sizeof OSMWayNode) count) of
             Inl e \<Rightarrow> Inl e
           | Inr h2 \<Rightarrow> Inr (h2, output)))"

definition osmwaynode_clear :: "heap \<Rightarrow> addr \<Rightarrow> 64 word \<Rightarrow> fault + heap" where
  "osmwaynode_clear h s count = memset h s 0 (size_mul (sizeof OSMWayNode) count)"

definition osmwaynode_export ::
  "heap \<Rightarrow> filesys \<Rightarrow> addr \<Rightarrow> 32 word \<Rightarrow> string \<Rightarrow> fault + (filesys \<times> int)" where
  "osmwaynode_export h fs s count fileName =
     (case fopen fs fileName ''wb'' of
        (fs1, outFile) \<Rightarrow>
          (case fwrite h fs1 s (sizeof OSMWayNode) (unat (scast count :: 64 word)) outFile of
             Inl e \<Rightarrow> Inl e
           | Inr (fs2, outFile2, written) \<Rightarrow>
               (case fclose outFile2 of
                  Inl e \<Rightarrow> Inl e
                | Inr u \<Rightarrow> Inr (fs2, 1))))"

definition osmwaynode_import ::
  "heap \<Rightarrow> filesys \<Rightarrow> string \<Rightarrow> fault + (heap \<times> addr \<times> 64 word)" where
  "osmwaynode_import h fs fileName =
     (case fopen fs fileName ''rb'' of
        (fs1, inFile) \<Rightarrow>
          (case fseek fs1 inFile 0 SEEK_END of
             Inl e \<Rightarrow> Inl e
           | Inr inFile1 \<Rightarrow>
               (case ftell inFile1 of
                  Inl e \<Rightarrow> Inl e
                | Inr pos \<Rightarrow>
                    (let count = pos div word_of_nat (sizeof OSMWayNode) in
                     case fseek fs1 inFile1 0 SEEK_SET of
                       Inl e \<Rightarrow> Inl e
                     | Inr inFile2 \<Rightarrow>
                         (case malloc h (size_mul (sizeof OSMWayNode) count) of
                            (h1, buffer) \<Rightarrow>
                              (case fread h1 fs1 buffer (sizeof OSMWayNode) (unat count) inFile2 of
                                 Inl e \<Rightarrow> Inl e
                               | Inr (h2, inFile3, got) \<Rightarrow>
                                   (case fclose inFile3 of
                                      Inl e \<Rightarrow> Inl e
                                    | Inr u \<Rightarrow> Inr (h2, buffer, count))))))))"

text \<open>\<^verbatim>\<open>value\<close> is a pointer to a \<^verbatim>\<open>struct OSMNode\<close>: the Node passed in or out is the
  \<open>sizeof OSMNode\<close> bytes at that address.\<close>

definition osmwaynode_set_node :: "heap \<Rightarrow> addr \<Rightarrow> 64 word \<Rightarrow> addr \<Rightarrow> fault + heap" where
  "osmwaynode_set_node h s index val =
     memcpy h (ptr_add (slot s index (sizeof OSMWayNode)) (offsetof OSMWayNode ''node'')) val
       (sizeof OSMNode)"

definition osmwaynode_get_node :: "heap \<Rightarrow> addr \<Rightarrow> 64 word \<Rightarrow> addr \<Rightarrow> fault + heap" where
  "osmwaynode_get_node h s index val =
     memcpy h val (ptr_add (slot s index (sizeof OSMWayNode)) (offsetof OSMWayNode ''node''))
       (sizeof OSMNode)"

text \<open>\<^verbatim>\<open>osmnode_set_to_valhalla\<close>, which the function below calls last, is defined in
  \<^verbatim>\<open>osmnode.c\<close>, a file that is not among the sources: it is taken as a parameter, given the
  heap, the pointer to the embedded Node, the index 0 and the four arguments passed
  on to it.\<close>

definition osmwaynode_set_to_valhalla ::
  "(heap \<Rightarrow> addr \<Rightarrow> 64 word \<Rightarrow> 64 word \<Rightarrow> 64 word \<Rightarrow> 64 word \<Rightarrow> 64 word \<Rightarrow> fault + heap) \<Rightarrow>
   heap \<Rightarrow> addr \<Rightarrow> 64 word \<Rightarrow> 64 word \<Rightarrow> 64 word \<Rightarrow> 64 word \<Rightarrow> 64 word \<Rightarrow> 64 word \<Rightarrow> 64 word \<Rightarrow>
   fault + heap" where
  "osmwaynode_set_to_valhalla osmnode_set_to_valhalla h s index way_index way_shape_node_index
     osmid lng7 lat7 intersection =
     (case memset h (slot s index (sizeof OSMWayNode)) 0 (sizeof OSMWayNode) of
        Inl e \<Rightarrow> Inl e
      | Inr h1 \<Rightarrow>
          (case assigns OSMWayNode h1 (slot s index (sizeof OSMWayNode))
                  [(''way_index'', unat way_index),
                   (''way_shape_node_index'', unat way_shape_node_index)] of
             Inl e \<Rightarrow> Inl e
           | Inr h2 \<Rightarrow>
               osmnode_set_to_valhalla h2
                 (ptr_add (slot s index (sizeof OSMWayNode)) (offsetof OSMWayNode ''node''))
                 0 osmid lng7 lat7 intersection))"

section \<open>Arrays of records, and the common shape of export and import\<close>

text \<open>\<open>array_at h s sz n\<close>: \<open>s\<close> points to \<open>n\<close> records of \<open>sz\<close> bytes each, all inside the
  mapped memory. \<open>records\<close> lists them, one byte block per record.\<close>

definition array_at :: "heap \<Rightarrow> addr \<Rightarrow> nat \<Rightarrow> nat \<Rightarrow> bool" where
  "array_at h s sz n = (0 < s \<and> s + sz * n \<le> length (bytes h))"

definition records :: "heap \<Rightarrow> addr \<Rightarrow> nat \<Rightarrow> nat \<Rightarrow> byte list list" where
  "records h s sz n = map (\<lambda>i. load h (s + i * sz) sz) [0..<n]"

definition record_at :: "heap \<Rightarrow> addr \<Rightarrow> nat \<Rightarrow> nat \<Rightarrow> byte list" where
  "record_at h s sz i = load h (s + i * sz) sz"

text \<open>The members \<^verbatim>\<open>osmway_set_to_valhalla\<close> assigns after zeroing the record, and the
  record it builds from its three arguments, as a byte block.\<close>

definition valhalla_assigned :: "string list" where
  "valhalla_assigned =
     [''osmwayid_'', ''name_index_'', ''nodecount_'', ''surface_'', ''drive_on_right_'',
      ''road_class_'', ''use_'', ''has_user_tags_'', ''pedestrian_forward_'',
      ''pedestrian_backward_'', ''speed_'']"

definition valhalla_way :: "nat \<Rightarrow> nat \<Rightarrow> nat \<Rightarrow> byte list" where
  "valhalla_way a b c =
     foldl (\<lambda>r (n, v). set_member OSMWay r n v) (replicate (sizeof OSMWay) 0)
       [(''osmwayid_'', a),
        (''name_index_'', b),
        (''nodecount_'', c),
        (''surface_'', 3),
        (''drive_on_right_'', 1),
        (''road_class_'', 7),
        (''use_'', 25),
        (''has_user_tags_'', 0),
        (''pedestrian_forward_'', 1),
        (''pedestrian_backward_'', 1),
        (''speed_'', 25)]"

text \<open>The record \<^verbatim>\<open>osmwaynode_set_to_valhalla\<close> has built when it calls
  \<^verbatim>\<open>osmnode_set_to_valhalla\<close>: zero bytes with the two indices assigned.\<close>

definition indexed_waynode :: "nat \<Rightarrow> nat \<Rightarrow> byte list" where
  "indexed_waynode a b =
     foldl (\<lambda>r (n, v). set_member OSMWayNode r n v) (replicate (sizeof OSMWayNode) 0)
       [(''way_index'', a), (''way_shape_node_index'', b)]"

text \<open>The export and import functions of the two files differ in \<^verbatim>\<open>sizeof(struct ...)\<close>
  only. The two definitions below are their bodies with the record size as a
  parameter; they serve the proofs, which are done once for both.\<close>

definition export_records ::
  "nat \<Rightarrow> heap \<Rightarrow> filesys \<Rightarrow> addr \<Rightarrow> 32 word \<Rightarrow> string \<Rightarrow> fault + (filesys \<times> int)" where
  "export_records sz h fs s count fileName =
     (case fopen fs fileName ''wb'' of
        (fs1, outFile) \<Rightarrow>
          (case fwrite h fs1 s sz (unat (scast count :: 64 word)) outFile of
             Inl e \<Rightarrow> Inl e
           | Inr (fs2, outFile2, written) \<Rightarrow>
               (case fclose outFile2 of
                  Inl e \<Rightarrow> Inl e
                | Inr u \<Rightarrow> Inr (fs2, 1))))"

definition import_records ::
  "nat \<Rightarrow> heap \<Rightarrow> filesys \<Rightarrow> string \<Rightarrow> fault + (heap \<times> addr \<times> 64 word)" where
  "import_records sz h fs fileName =
     (case fopen fs fileName ''rb'' of
        (fs1, inFile) \<Rightarrow>
          (case fseek fs1 inFile 0 SEEK_END of
             Inl e \<Rightarrow> Inl e
           | Inr inFile1 \<Rightarrow>
               (case ftell inFile1 of
                  Inl e \<Rightarrow> Inl e
                | Inr pos \<Rightarrow>
                    (let count = pos div word_of_nat sz in
                     case fseek fs1 inFile1 0 SEEK_SET of
                       Inl e \<Rightarrow> Inl e
                     | Inr inFile2 \<Rightarrow>
                         (case malloc h (size_mul sz count) of
                            (h1, buffer) \<Rightarrow>
                              (case fread h1 fs1 buffer sz (unat count) inFile2 of
                                 Inl e \<Rightarrow> Inl e
                               | Inr (h2, inFile3, got) \<Rightarrow>
                                   (case fclose inFile3 of
                                      Inl e \<Rightarrow> Inl e
                                    | Inr u \<Rightarrow> Inr (h2, buffer, count))))))))"

section \<open>\<^verbatim>\<open>osmnode.c\<close>\<close>

text \<open>Modelled from the spec: \<^verbatim>\<open>osmnode.c\<close>, which holds the export and import of Node
  arrays, is not among the source files (\<^verbatim>\<open>osmdata.c\<close> calls into it, and the comment in
  \<^verbatim>\<open>osmway_import\<close> names \<^verbatim>\<open>osmnode_import\<close> as similar). The spec gives export and
  import as one pair of operations parameterized over the record type, so the Node
  pair is the common body at \<^verbatim>\<open>sizeof(struct OSMNode)\<close>.\<close>

definition osmnode_export ::
  "heap \<Rightarrow> filesys \<Rightarrow> addr \<Rightarrow> 32 word \<Rightarrow> string \<Rightarrow> fault + (filesys \<times> int)" where
  "osmnode_export = export_records (sizeof OSMNode)"

definition osmnode_import ::
  "heap \<Rightarrow> filesys \<Rightarrow> string \<Rightarrow> fault + (heap \<times> addr \<times> 64 word)" where
  "osmnode_import = import_records (sizeof OSMNode)"

text \<open>The Node embedded in a Way-shape-node record, and two regions of \<open>n\<close> bytes that
  do not overlap.\<close>

definition embedded_node :: "byte list \<Rightarrow> byte list" where
  "embedded_node r = take (sizeof OSMNode) (drop (offsetof OSMWayNode ''node'') r)"

definition apart :: "addr \<Rightarrow> addr \<Rightarrow> nat \<Rightarrow> bool" where
  "apart p q n = (p + n \<le> q \<or> q + n \<le> p)"

section \<open>States used in the examples\<close>

text \<open>A heap of 400 mapped bytes (addresses 1 to 399 usable), and a disk with 1024 free
  bytes on which one path cannot be opened.\<close>

definition example_heap :: heap where
  "example_heap = \<lparr>cells = replicate 400 42, cap = 4096, junk = (\<lambda>a. 170)\<rparr>"

definition example_disk :: filesys where
  "example_disk =
     \<lparr>files = Map.empty, denied = (\<lambda>p. p = ''/nonexistent/ways.bin''), room = 1024\<rparr>"

text \<open>A heap whose first 200 bytes hold 42 and whose next 200 bytes hold 7.\<close>

definition mixed_heap :: heap where
  "mixed_heap = \<lparr>cells = replicate 200 42 @ replicate 200 7, cap = 4096, junk = (\<lambda>a. 170)\<rparr>"

text \<open>The same disk holding a file of 400 bytes: more than one Way record (320 bytes)
  and more than seven Way-shape-node records (392 bytes), a multiple of neither size.\<close>

definition truncated_disk :: filesys where
  "truncated_disk = example_disk\<lparr>files := [''ways.bin'' \<mapsto> replicate 400 7]\<rparr>"

section \<open>Facts about memory, sizes and conversions\<close>

lemma sizeof_OSMNode: "sizeof OSMNode = 48"
  by (simp add: sizeof_def OSMNode_def alignof_bits_def round_up_def)

lemma sizeof_OSMWay: "sizeof OSMWay = 320"
  by (simp add: sizeof_def OSMWay_def alignof_bits_def round_up_def)

lemma sizeof_OSMWayNode: "sizeof OSMWayNode = 56"
  by (simp add: sizeof_def OSMWayNode_def sizeof_OSMNode alignof_bits_def round_up_def OSMNode_def)

lemma length_bytes: "length (bytes h) \<le> 2 ^ 64"
  by (simp add: bytes_def)

lemma bytes_cells: "length bs \<le> 2 ^ 64 \<Longrightarrow> bytes (h\<lparr>cells := bs\<rparr>) = bs"
  by (simp add: bytes_def)

lemma example_heap_bytes: "bytes example_heap = replicate 400 42"
  by (simp add: bytes_def example_heap_def)

lemma example_heap_limit: "limit example_heap = 4096"
  by (simp add: limit_def example_heap_def)

lemma mixed_heap_bytes: "bytes mixed_heap = replicate 200 42 @ replicate 200 7"
  by (simp add: bytes_def mixed_heap_def)

lemma mixed_heap_limit: "limit mixed_heap = 4096"
  by (simp add: limit_def mixed_heap_def)

lemma bytes_store:
  assumes "p + length bs \<le> length (bytes h)"
  shows "bytes (store h p bs) = take p (bytes h) @ bs @ drop (p + length bs) (bytes h)"
proof -
  have "length (take p (bytes h) @ bs @ drop (p + length bs) (bytes h)) = length (bytes h)"
    using assms by simp
  then have "length (take p (bytes h) @ bs @ drop (p + length bs) (bytes h)) \<le> 2 ^ 64"
    using length_bytes[of h] by simp
  then show ?thesis unfolding store_def by (rule bytes_cells)
qed

lemma length_store:
  "p + length bs \<le> length (bytes h) \<Longrightarrow> length (bytes (store h p bs)) = length (bytes h)"
  by (simp add: bytes_store)

lemma load_store_same:
  "p + length bs \<le> length (bytes h) \<Longrightarrow> load (store h p bs) p (length bs) = bs"
  by (simp add: bytes_store load_def)

lemma nth_store_other:
  "p + length bs \<le> length (bytes h) \<Longrightarrow> a < p \<or> p + length bs \<le> a \<Longrightarrow>
   bytes (store h p bs) ! a = bytes h ! a"
  by (auto simp add: bytes_store nth_append)

lemma length_load: "length (load h q n) = min n (length (bytes h) - q)"
  by (simp add: load_def)

lemma nth_load: "i < n \<Longrightarrow> q + i < length (bytes h) \<Longrightarrow> load h q n ! i = bytes h ! (q + i)"
  by (simp add: load_def)

lemma load_store_other:
  assumes "p + length bs \<le> length (bytes h)" "q + n \<le> p \<or> p + length bs \<le> q"
  shows "load (store h p bs) q n = load h q n"
proof (rule nth_equalityI)
  show "length (load (store h p bs) q n) = length (load h q n)"
    using assms by (simp add: length_load length_store)
next
  fix i assume "i < length (load (store h p bs) q n)"
  then have i: "i < n" "q + i < length (bytes h)"
    using assms by (auto simp: length_load length_store)
  then have "q + i < p \<or> p + length bs \<le> q + i" using assms(2) by auto
  then show "load (store h p bs) q n ! i = load h q n ! i"
    using i assms(1) by (simp add: nth_load length_store nth_store_other)
qed

lemma length_load_array: "array_at h s sz n \<Longrightarrow> length (load h s (sz * n)) = sz * n"
  by (auto simp add: array_at_def load_def)

lemma concat_records:
  assumes "array_at h s sz n"
  shows "concat (records h s sz n) = load h s (sz * n)"
  using assms
proof (induction n)
  case 0 show ?case by (simp add: records_def load_def)
next
  case (Suc n)
  then have "concat (records h s sz n) = load h s (sz * n)" by (simp add: array_at_def)
  moreover have "load h s (sz * n) @ load h (s + n * sz) sz = load h s (sz * Suc n)"
  proof -
    have "take (sz * n + sz) (drop s (bytes h)) =
          take (sz * n) (drop s (bytes h)) @ take sz (drop (sz * n) (drop s (bytes h)))"
      by (rule take_add)
    moreover have "sz * Suc n = sz * n + sz" by simp
    moreover have "drop (sz * n) (drop s (bytes h)) = drop (s + n * sz) (bytes h)"
      by (simp add: add.commute mult.commute)
    ultimately show ?thesis by (simp only: load_def)
  qed
  ultimately show ?case by (simp add: records_def)
qed

lemma fresh_gt: "length (bytes h) < fresh h"
  unfolding fresh_def by (simp add: dividend_less_times_div mult.commute)

lemma malloc_ok:
  assumes "fresh h + n \<le> limit h"
  shows "malloc h n =
           (h\<lparr>cells := bytes h @ map (junk h) [length (bytes h)..<fresh h + n]\<rparr>, fresh h)"
  using assms by (simp add: malloc_def)

lemma bytes_malloc:
  assumes "fresh h + n \<le> limit h"
  shows "bytes (h\<lparr>cells := bytes h @ map (junk h) [length (bytes h)..<fresh h + n]\<rparr>) =
           bytes h @ map (junk h) [length (bytes h)..<fresh h + n]"
proof -
  have "length (bytes h) < fresh h" by (rule fresh_gt)
  then have "length (bytes h @ map (junk h) [length (bytes h)..<fresh h + n]) = fresh h + n"
    by simp
  moreover have "fresh h + n \<le> 2 ^ 64" using assms by (simp add: limit_def)
  ultimately show ?thesis by (intro bytes_cells) simp
qed

text \<open>An \<^verbatim>\<open>int\<close> passed where a \<^verbatim>\<open>size_t\<close> is expected.\<close>

lemma uint_sint_mod:
  fixes count :: "32 word"
  shows "uint count = sint count mod 2 ^ 32"
  using uint_word_of_int[of "sint count", where 'a=32] by simp

lemma unat_scast_mod:
  fixes count :: "32 word"
  shows "unat (scast count :: 64 word) = nat (sint count mod 2 ^ 64)"
proof -
  have "unat (scast count :: 64 word) = nat (uint (word_of_int (sint count) :: 64 word))"
    by (simp only: scast_eq unat_eq_nat_uint)
  also have "\<dots> = nat (sint count mod 2 ^ 64)"
    by (simp only: uint_word_of_int) simp
  finally show ?thesis .
qed

lemma unat_scast_count:
  fixes count :: "32 word"
  assumes "0 \<le> sint count"
  shows "unat (scast count :: 64 word) = unat count"
proof -
  have lt: "sint count < 2 ^ 31" using sint_lt[of count] by simp
  have "sint count mod 2 ^ 64 = sint count" using assms lt by simp
  moreover have "sint count mod 2 ^ 32 = sint count" using assms lt by simp
  ultimately show ?thesis
    by (simp only: unat_scast_mod unat_eq_nat_uint[of count] uint_sint_mod)
qed

lemma unat_of_nat64: "x < 2 ^ 64 \<Longrightarrow> unat (word_of_nat x :: 64 word) = x"
  by (simp add: unat_of_nat)

lemma unat_count_div:
  assumes "0 < sz" "sz < 2 ^ 64" "len < 2 ^ 64"
  shows "unat ((word_of_nat len :: 64 word) div word_of_nat sz) = len div sz"
  using assms by (simp add: unat_div unat_of_nat64)

lemma size_mul_small: "sz * n < 2 ^ 64 \<Longrightarrow> size_mul sz (word_of_nat n) = sz * n"
proof -
  assume lt: "sz * n < 2 ^ 64"
  have "(word_of_nat sz :: 64 word) * word_of_nat n = word_of_nat (sz * n)" by simp
  then show ?thesis using lt by (simp only: size_mul_def unat_of_nat64)
qed

section \<open>Export and import\<close>

lemma osmway_export_eq: "osmway_export = export_records (sizeof OSMWay)"
  by (simp add: fun_eq_iff osmway_export_def export_records_def)

lemma osmwaynode_export_eq: "osmwaynode_export = export_records (sizeof OSMWayNode)"
  by (simp add: fun_eq_iff osmwaynode_export_def export_records_def)

lemma osmway_import_eq: "osmway_import = import_records (sizeof OSMWay)"
  by (simp add: fun_eq_iff osmway_import_def import_records_def)

lemma osmwaynode_import_eq: "osmwaynode_import = import_records (sizeof OSMWayNode)"
  by (simp add: fun_eq_iff osmwaynode_import_def import_records_def)

lemma export_records_ok:
  assumes "\<not> denied fs fileName" "0 \<le> sint count" "array_at h s sz (unat count)"
    "sz * unat count \<le> room fs"
  shows "export_records sz h fs s count fileName =
           Inr (fs\<lparr>files := (files fs)(fileName \<mapsto> load h s (sz * unat count)),
                   room := room fs - sz * unat count\<rparr>, 1)"
proof -
  have v: "valid h s (sz * unat count)" using assms(3) by (simp add: array_at_def valid_def)
  have l: "length (load h s (sz * unat count)) = sz * unat count"
    using assms(3) by (rule length_load_array)
  show ?thesis
    using assms(1,4) v l
    by (simp add: export_records_def fopen_def fwrite_def fclose_def unat_scast_count[OF assms(2)]
        content_def Let_def)
qed

lemma import_records_ok:
  assumes fl: "files fs fileName = Some data" "\<not> denied fs fileName"
    and sz: "0 < sz" "sz < 2 ^ 64" and len: "length data < 2 ^ 64"
    and mem: "fresh h + sz * (length data div sz) \<le> limit h"
  shows "\<exists>h'. import_records sz h fs fileName =
              Inr (h', fresh h, word_of_nat (length data div sz)) \<and>
            load h' (fresh h) (sz * (length data div sz)) = take (sz * (length data div sz)) data \<and>
            take (length (bytes h)) (bytes h') = bytes h"
proof -
  let ?n = "length data div sz"
  let ?h1 = "h\<lparr>cells := bytes h @ map (junk h) [length (bytes h)..<fresh h + sz * ?n]\<rparr>"
  let ?got = "take (sz * ?n) data"
  have le: "sz * ?n \<le> length data" by simp
  have lgot: "length ?got = sz * ?n" using le by simp
  have b1: "bytes ?h1 = bytes h @ map (junk h) [length (bytes h)..<fresh h + sz * ?n]"
    by (rule bytes_malloc[OF mem])
  have len1: "length (bytes ?h1) = fresh h + sz * ?n"
    using fresh_gt[of h] by (simp add: b1)
  have v: "valid ?h1 (fresh h) (sz * ?n)"
    using fresh_gt[of h] len1 by (simp add: valid_def)
  have cnt: "(word_of_nat (length data) :: 64 word) div word_of_nat sz = word_of_nat ?n"
  proof -
    have "word_of_nat (unat ((word_of_nat (length data) :: 64 word) div word_of_nat sz)) =
          (word_of_nat (length data) :: 64 word) div word_of_nat sz"
      by simp
    then show ?thesis by (simp only: unat_count_div[OF sz len])
  qed
  have lt: "sz * ?n < 2 ^ 64" "?n < 2 ^ 64" using le len sz(1)
    by (linarith, metis div_le_dividend le_less_trans)
  have run: "import_records sz h fs fileName =
               Inr (store ?h1 (fresh h) ?got, fresh h, word_of_nat ?n)"
    using fl v lgot
    by (simp add: import_records_def fopen_def fseek_def ftell_def content_def Let_def
        size_mul_small[OF lt(1)] malloc_ok[OF mem] unat_of_nat64[OF lt(2)] fread_def fclose_def cnt)
  have ld: "load (store ?h1 (fresh h) ?got) (fresh h) (sz * ?n) = ?got"
    using load_store_same[of "fresh h" ?got ?h1] len1 lgot by simp
  have "bytes (store ?h1 (fresh h) ?got) =
          take (fresh h) (bytes ?h1) @ ?got @ drop (fresh h + length ?got) (bytes ?h1)"
    using len1 lgot by (intro bytes_store) simp
  then have keep: "take (length (bytes h)) (bytes (store ?h1 (fresh h) ?got)) = bytes h"
    using fresh_gt[of h] by (simp add: b1)
  show ?thesis using run ld keep by blast
qed

text \<open>
  Claim C3. Exporting \<open>count\<close> records (a non-negative \<^verbatim>\<open>int\<close>) from an array that holds
  them, to a path that can be opened on a device with room for them, returns 1 and
  leaves a file whose content is exactly the \<open>count\<close> records back to back, as they
  stand in memory: \<open>count * sizeof\<close> bytes, nothing before, between or after them.
  This holds for \<^verbatim>\<open>osmway_export\<close> and for \<^verbatim>\<open>osmwaynode_export\<close>.
\<close>

theorem export_file_is_raw_records:
  assumes "\<not> denied fs fileName" and "0 \<le> sint count"
  shows "(array_at h s (sizeof OSMWay) (unat count) \<and> sizeof OSMWay * unat count \<le> room fs \<longrightarrow>
            (\<exists>fs'. osmway_export h fs s count fileName = Inr (fs', 1) \<and>
                   files fs' fileName = Some (concat (records h s (sizeof OSMWay) (unat count))) \<and>
                   length (content fs' fileName) = unat count * sizeof OSMWay))
       \<and> (array_at h s (sizeof OSMWayNode) (unat count) \<and>
            sizeof OSMWayNode * unat count \<le> room fs \<longrightarrow>
            (\<exists>fs'. osmwaynode_export h fs s count fileName = Inr (fs', 1) \<and>
                   files fs' fileName =
                     Some (concat (records h s (sizeof OSMWayNode) (unat count))) \<and>
                   length (content fs' fileName) = unat count * sizeof OSMWayNode))"
proof -
  have gen: "\<exists>fs'. export_records sz h fs s count fileName = Inr (fs', 1) \<and>
                files fs' fileName = Some (concat (records h s sz (unat count))) \<and>
                length (content fs' fileName) = unat count * sz"
    if a: "array_at h s sz (unat count)" and r: "sz * unat count \<le> room fs" for sz
    using export_records_ok[OF assms a r] concat_records[OF a] length_load_array[OF a]
    by (simp add: content_def mult.commute)
  show ?thesis
    using gen[of "sizeof OSMWay"] gen[of "sizeof OSMWayNode"]
    by (simp only: osmway_export_eq osmwaynode_export_eq) blast
qed

theorem export_file_is_raw_records_witness:
  "\<not> denied example_disk ''ways.bin'' \<and> 0 \<le> sint (1 :: 32 word) \<and>
   array_at example_heap 1 (sizeof OSMWay) (unat (1 :: 32 word)) \<and>
   sizeof OSMWay * unat (1 :: 32 word) \<le> room example_disk \<and>
   array_at example_heap 1 (sizeof OSMWayNode) (unat (1 :: 32 word)) \<and>
   sizeof OSMWayNode * unat (1 :: 32 word) \<le> room example_disk \<and>
   (\<exists>fs'. osmway_export example_heap example_disk 1 1 ''ways.bin'' = Inr (fs', 1) \<and>
          files fs' ''ways.bin'' = Some (concat (records example_heap 1 (sizeof OSMWay) 1)) \<and>
          length (content fs' ''ways.bin'') = 320) \<and>
   (\<exists>fs'. osmwaynode_export example_heap example_disk 1 1 ''ways.bin'' = Inr (fs', 1) \<and>
          files fs' ''ways.bin'' = Some (concat (records example_heap 1 (sizeof OSMWayNode) 1)) \<and>
          length (content fs' ''ways.bin'') = 56)"
proof -
  have d: "\<not> denied example_disk ''ways.bin''" by (simp add: example_disk_def)
  have c: "0 \<le> sint (1 :: 32 word)" by simp
  have w: "array_at example_heap 1 (sizeof OSMWay) (unat (1 :: 32 word))"
    "sizeof OSMWay * unat (1 :: 32 word) \<le> room example_disk"
    by (simp_all add: array_at_def example_heap_bytes example_heap_limit example_disk_def sizeof_OSMWay)
  have n: "array_at example_heap 1 (sizeof OSMWayNode) (unat (1 :: 32 word))"
    "sizeof OSMWayNode * unat (1 :: 32 word) \<le> room example_disk"
    by (simp_all add: array_at_def example_heap_bytes example_heap_limit example_disk_def sizeof_OSMWayNode)
  show ?thesis
    using export_file_is_raw_records[OF d c, of example_heap 1] d c w n
    by (simp add: sizeof_OSMWay sizeof_OSMWayNode)
qed

lemma import_records_buffer:
  assumes fl: "files fs fileName = Some data" "\<not> denied fs fileName"
    and sz: "0 < sz" "sz < 2 ^ 64" and len: "length data < 2 ^ 64"
    and mem: "fresh h + sz * (length data div sz) \<le> limit h"
  shows "\<exists>h'. import_records sz h fs fileName =
              Inr (h', fresh h, word_of_nat (length data div sz)) \<and>
            length (bytes h') = fresh h + sz * (length data div sz) \<and>
            take (length (bytes h)) (bytes h') = bytes h \<and>
            load h' (fresh h) (sz * (length data div sz)) = take (sz * (length data div sz)) data"
proof -
  let ?n = "length data div sz"
  let ?h1 = "h\<lparr>cells := bytes h @ map (junk h) [length (bytes h)..<fresh h + sz * ?n]\<rparr>"
  let ?got = "take (sz * ?n) data"
  have le: "sz * ?n \<le> length data" by simp
  have lgot: "length ?got = sz * ?n" using le by simp
  have b1: "bytes ?h1 = bytes h @ map (junk h) [length (bytes h)..<fresh h + sz * ?n]"
    by (rule bytes_malloc[OF mem])
  have len1: "length (bytes ?h1) = fresh h + sz * ?n"
    using fresh_gt[of h] by (simp add: b1)
  have v: "valid ?h1 (fresh h) (sz * ?n)"
    using fresh_gt[of h] len1 by (simp add: valid_def)
  have cnt: "(word_of_nat (length data) :: 64 word) div word_of_nat sz = word_of_nat ?n"
  proof -
    have "word_of_nat (unat ((word_of_nat (length data) :: 64 word) div word_of_nat sz)) =
          (word_of_nat (length data) :: 64 word) div word_of_nat sz"
      by simp
    then show ?thesis by (simp only: unat_count_div[OF sz len])
  qed
  have lt: "sz * ?n < 2 ^ 64" "?n < 2 ^ 64" using le len sz(1)
    by (linarith, metis div_le_dividend le_less_trans)
  have run: "import_records sz h fs fileName =
               Inr (store ?h1 (fresh h) ?got, fresh h, word_of_nat ?n)"
    using fl v lgot
    by (simp add: import_records_def fopen_def fseek_def ftell_def content_def Let_def
        size_mul_small[OF lt(1)] malloc_ok[OF mem] unat_of_nat64[OF lt(2)] fread_def fclose_def cnt)
  have fit: "fresh h + length ?got \<le> length (bytes ?h1)" using len1 lgot by simp
  have ld: "load (store ?h1 (fresh h) ?got) (fresh h) (sz * ?n) = ?got"
    using load_store_same[OF fit] lgot by simp
  have ln: "length (bytes (store ?h1 (fresh h) ?got)) = fresh h + sz * ?n"
    using length_store[OF fit] len1 by simp
  have "bytes (store ?h1 (fresh h) ?got) =
          take (fresh h) (bytes ?h1) @ ?got @ drop (fresh h + length ?got) (bytes ?h1)"
    using fit by (rule bytes_store)
  then have keep: "take (length (bytes h)) (bytes (store ?h1 (fresh h) ?got)) = bytes h"
    using fresh_gt[of h] by (simp add: b1)
  show ?thesis using run ld keep ln by blast
qed

lemma records_of_load:
  "records h s sz n = map (\<lambda>i. take sz (drop (i * sz) (load h s (sz * n)))) [0..<n]"
proof -
  have "take sz (drop (i * sz) (load h s (sz * n))) = load h (s + i * sz) sz" if "i < n" for i
  proof -
    have "sz * (i + 1) \<le> sz * n" using that by (intro mult_le_mono2) simp
    then have "sz \<le> sz * n - i * sz" by (simp add: mult.commute)
    then show ?thesis by (simp add: load_def drop_take min_absorb1 add.commute)
  qed
  then show ?thesis by (simp add: records_def)
qed

lemma round_trip_records:
  assumes d: "\<not> denied fs fileName" and c: "0 \<le> sint count"
    and a: "array_at h s sz (unat count)" and r: "sz * unat count \<le> room fs"
    and m: "fresh h2 + sz * unat count \<le> limit h2" and sz: "0 < sz" "sz < 2 ^ 32"
  shows "\<exists>fs' h' n.
           export_records sz h fs s count fileName = Inr (fs', 1) \<and>
           import_records sz h2 fs' fileName = Inr (h', fresh h2, n) \<and>
           unat n = unat count \<and>
           length (bytes h2) < fresh h2 \<and>
           length (bytes h') = fresh h2 + sz * unat count \<and>
           take (length (bytes h2)) (bytes h') = bytes h2 \<and>
           load h' (fresh h2) (sz * unat n) = load h s (sz * unat count) \<and>
           records h' (fresh h2) sz (unat n) = records h s sz (unat count)"
proof -
  let ?N = "unat count"
  let ?data = "load h s (sz * ?N)"
  let ?fs' = "fs\<lparr>files := (files fs)(fileName \<mapsto> ?data), room := room fs - sz * ?N\<rparr>"
  have ex: "export_records sz h fs s count fileName = Inr (?fs', 1)"
    by (rule export_records_ok[OF d c a r])
  have ld: "length ?data = sz * ?N" by (rule length_load_array[OF a])
  have N: "?N < 2 ^ 32" using unsigned_less[of count, where 'a=nat] by simp
  have "sz * ?N < 2 ^ 32 * 2 ^ 32" using sz(2) N sz(1)
    by (intro mult_strict_mono) simp_all
  then have big: "sz * ?N < 2 ^ 64" by simp
  have dv: "length ?data div sz = ?N" using sz(1) by (simp add: ld)
  have f: "files ?fs' fileName = Some ?data" "\<not> denied ?fs' fileName" using d by simp_all
  have sz64: "sz < 2 ^ 64" using sz(2) by (rule less_trans) simp
  have l64: "length ?data < 2 ^ 64" using big by (simp only: ld)
  have m': "fresh h2 + sz * (length ?data div sz) \<le> limit h2" using m by (simp only: dv)
  obtain h' where im: "import_records sz h2 ?fs' fileName = Inr (h', fresh h2, word_of_nat ?N)"
    and ln: "length (bytes h') = fresh h2 + sz * ?N"
    and k: "take (length (bytes h2)) (bytes h') = bytes h2"
    and l: "load h' (fresh h2) (sz * ?N) = take (sz * ?N) ?data"
    using import_records_buffer[OF f sz(1) sz64 l64 m'] unfolding dv by blast
  have un: "unat (word_of_nat ?N :: 64 word) = ?N"
    by (rule unat_of_nat64) (use N in simp)
  have "take (sz * ?N) ?data = ?data" using ld by simp
  then have same: "load h' (fresh h2) (sz * ?N) = ?data" using l by simp
  have recs: "records h' (fresh h2) sz ?N = records h s sz ?N"
    by (simp only: records_of_load[of h'] records_of_load[of h] same)
  show ?thesis
    using ex im ln k un same recs fresh_gt[of h2]
    by (intro exI[of _ ?fs'] exI[of _ h'] exI[of _ "word_of_nat ?N"]) simp
qed

text \<open>
  Claim C1. Let an array of the exporting process hold \<open>count\<close> records (\<open>count\<close> a
  non-negative \<^verbatim>\<open>int\<close>, so also 0, 1 and 1000), let the path be one that can be opened
  and the device have room for the records. Let \<open>h2\<close> be the heap of the importing
  process, any heap at all, whose allocator has memory for the records. Then export
  returns 1, and import of the same path into \<open>h2\<close> returns the count \<open>count\<close> and a
  buffer that is freshly allocated: it starts at \<open>fresh h2\<close>, past every byte \<open>h2\<close> had,
  the new heap ends with it, and the bytes \<open>h2\<close> had are untouched. The \<open>count * sizeof\<close>
  bytes of the buffer are, byte for byte, those of the exported array, and so the
  imported records are the exported records. This holds for Way and Way-shape-node
  arrays (the code of \<^verbatim>\<open>osmway.c\<close> and \<^verbatim>\<open>osmdata.c\<close>) and for Node arrays (whose functions are
  modelled from the spec).
\<close>

theorem export_import_round_trip:
  assumes "\<not> denied fs fileName" and "0 \<le> sint count"
  shows "(array_at h s (sizeof OSMWay) (unat count) \<and> sizeof OSMWay * unat count \<le> room fs \<and>
          fresh h2 + sizeof OSMWay * unat count \<le> limit h2 \<longrightarrow>
            (\<exists>fs' h' n.
               osmway_export h fs s count fileName = Inr (fs', 1) \<and>
               osmway_import h2 fs' fileName = Inr (h', fresh h2, n) \<and>
               unat n = unat count \<and>
               length (bytes h2) < fresh h2 \<and>
               length (bytes h') = fresh h2 + sizeof OSMWay * unat count \<and>
               take (length (bytes h2)) (bytes h') = bytes h2 \<and>
               load h' (fresh h2) (sizeof OSMWay * unat n) =
                 load h s (sizeof OSMWay * unat count) \<and>
               records h' (fresh h2) (sizeof OSMWay) (unat n) =
                 records h s (sizeof OSMWay) (unat count)))
       \<and> (array_at h s (sizeof OSMWayNode) (unat count) \<and>
          sizeof OSMWayNode * unat count \<le> room fs \<and>
          fresh h2 + sizeof OSMWayNode * unat count \<le> limit h2 \<longrightarrow>
            (\<exists>fs' h' n.
               osmwaynode_export h fs s count fileName = Inr (fs', 1) \<and>
               osmwaynode_import h2 fs' fileName = Inr (h', fresh h2, n) \<and>
               unat n = unat count \<and>
               length (bytes h2) < fresh h2 \<and>
               length (bytes h') = fresh h2 + sizeof OSMWayNode * unat count \<and>
               take (length (bytes h2)) (bytes h') = bytes h2 \<and>
               load h' (fresh h2) (sizeof OSMWayNode * unat n) =
                 load h s (sizeof OSMWayNode * unat count) \<and>
               records h' (fresh h2) (sizeof OSMWayNode) (unat n) =
                 records h s (sizeof OSMWayNode) (unat count)))
       \<and> (array_at h s (sizeof OSMNode) (unat count) \<and>
          sizeof OSMNode * unat count \<le> room fs \<and>
          fresh h2 + sizeof OSMNode * unat count \<le> limit h2 \<longrightarrow>
            (\<exists>fs' h' n.
               osmnode_export h fs s count fileName = Inr (fs', 1) \<and>
               osmnode_import h2 fs' fileName = Inr (h', fresh h2, n) \<and>
               unat n = unat count \<and>
               length (bytes h2) < fresh h2 \<and>
               length (bytes h') = fresh h2 + sizeof OSMNode * unat count \<and>
               take (length (bytes h2)) (bytes h') = bytes h2 \<and>
               load h' (fresh h2) (sizeof OSMNode * unat n) =
                 load h s (sizeof OSMNode * unat count) \<and>
               records h' (fresh h2) (sizeof OSMNode) (unat n) =
                 records h s (sizeof OSMNode) (unat count)))"
proof -
  have way: "0 < sizeof OSMWay" "sizeof OSMWay < 2 ^ 32" by (simp_all add: sizeof_OSMWay)
  have waynode: "0 < sizeof OSMWayNode" "sizeof OSMWayNode < 2 ^ 32"
    by (simp_all add: sizeof_OSMWayNode)
  have node: "0 < sizeof OSMNode" "sizeof OSMNode < 2 ^ 32" by (simp_all add: sizeof_OSMNode)
  show ?thesis
    using round_trip_records[OF assms _ _ _ way, of h s h2]
      round_trip_records[OF assms _ _ _ waynode, of h s h2]
      round_trip_records[OF assms _ _ _ node, of h s h2]
    by (simp only: osmway_export_eq osmway_import_eq osmwaynode_export_eq osmwaynode_import_eq
        osmnode_export_def osmnode_import_def) blast
qed

theorem export_import_round_trip_witness:
  "\<not> denied example_disk ''ways.bin'' \<and> 0 \<le> sint (1 :: 32 word) \<and>
   array_at example_heap 1 (sizeof OSMWay) (unat (1 :: 32 word)) \<and>
   sizeof OSMWay * unat (1 :: 32 word) \<le> room example_disk \<and>
   fresh mixed_heap + sizeof OSMWay * unat (1 :: 32 word) \<le> limit mixed_heap \<and>
   fresh mixed_heap = 416 \<and> length (bytes mixed_heap) = 400 \<and>
   (\<exists>fs' h' n.
      osmway_export example_heap example_disk 1 1 ''ways.bin'' = Inr (fs', 1) \<and>
      osmway_import mixed_heap fs' ''ways.bin'' = Inr (h', 416, n) \<and>
      unat n = 1 \<and>
      length (bytes h') = 416 + 320 \<and>
      take 400 (bytes h') = bytes mixed_heap \<and>
      load h' 416 (320 * unat n) = load example_heap 1 320) \<and>
   (\<exists>fs' h' n.
      osmwaynode_export example_heap example_disk 1 1 ''ways.bin'' = Inr (fs', 1) \<and>
      osmwaynode_import mixed_heap fs' ''ways.bin'' = Inr (h', 416, n) \<and>
      unat n = 1 \<and>
      length (bytes h') = 416 + 56 \<and>
      take 400 (bytes h') = bytes mixed_heap \<and>
      load h' 416 (56 * unat n) = load example_heap 1 56) \<and>
   (\<exists>fs' h' n.
      osmnode_export example_heap example_disk 1 1 ''ways.bin'' = Inr (fs', 1) \<and>
      osmnode_import mixed_heap fs' ''ways.bin'' = Inr (h', 416, n) \<and>
      unat n = 1 \<and>
      length (bytes h') = 416 + 48 \<and>
      take 400 (bytes h') = bytes mixed_heap \<and>
      load h' 416 (48 * unat n) = load example_heap 1 48)"
proof -
  have d: "\<not> denied example_disk ''ways.bin''" by (simp add: example_disk_def)
  have c: "0 \<le> sint (1 :: 32 word)" by simp
  have fr: "fresh mixed_heap = 416" "limit mixed_heap = 4096"
    "length (bytes mixed_heap) = 400" "length (bytes example_heap) = 400"
    "room example_disk = 1024"
    by (simp_all add: fresh_def mixed_heap_bytes example_heap_bytes mixed_heap_limit
        example_disk_def)
  have w: "array_at example_heap 1 (sizeof OSMWay) (unat (1 :: 32 word))"
    "sizeof OSMWay * unat (1 :: 32 word) \<le> room example_disk"
    "fresh mixed_heap + sizeof OSMWay * unat (1 :: 32 word) \<le> limit mixed_heap"
    by (simp_all add: fr array_at_def sizeof_OSMWay)
  have n: "array_at example_heap 1 (sizeof OSMWayNode) (unat (1 :: 32 word))"
    "sizeof OSMWayNode * unat (1 :: 32 word) \<le> room example_disk"
    "fresh mixed_heap + sizeof OSMWayNode * unat (1 :: 32 word) \<le> limit mixed_heap"
    by (simp_all add: fr array_at_def sizeof_OSMWayNode)
  have o: "array_at example_heap 1 (sizeof OSMNode) (unat (1 :: 32 word))"
    "sizeof OSMNode * unat (1 :: 32 word) \<le> room example_disk"
    "fresh mixed_heap + sizeof OSMNode * unat (1 :: 32 word) \<le> limit mixed_heap"
    by (simp_all add: fr array_at_def sizeof_OSMNode)
  note rt = export_import_round_trip[OF d c, of example_heap 1 mixed_heap]
  have r1: "\<exists>fs' h' n.
      osmway_export example_heap example_disk 1 1 ''ways.bin'' = Inr (fs', 1) \<and>
      osmway_import mixed_heap fs' ''ways.bin'' = Inr (h', 416, n) \<and>
      unat n = 1 \<and>
      length (bytes h') = 416 + 320 \<and>
      take 400 (bytes h') = bytes mixed_heap \<and>
      load h' 416 (320 * unat n) = load example_heap 1 320"
    using rt w by (simp add: sizeof_OSMWay fr(1,3)) blast
  have r2: "\<exists>fs' h' n.
      osmwaynode_export example_heap example_disk 1 1 ''ways.bin'' = Inr (fs', 1) \<and>
      osmwaynode_import mixed_heap fs' ''ways.bin'' = Inr (h', 416, n) \<and>
      unat n = 1 \<and>
      length (bytes h') = 416 + 56 \<and>
      take 400 (bytes h') = bytes mixed_heap \<and>
      load h' 416 (56 * unat n) = load example_heap 1 56"
    using rt n by (simp add: sizeof_OSMWayNode fr(1,3)) blast
  have r3: "\<exists>fs' h' n.
      osmnode_export example_heap example_disk 1 1 ''ways.bin'' = Inr (fs', 1) \<and>
      osmnode_import mixed_heap fs' ''ways.bin'' = Inr (h', 416, n) \<and>
      unat n = 1 \<and>
      length (bytes h') = 416 + 48 \<and>
      take 400 (bytes h') = bytes mixed_heap \<and>
      load h' 416 (48 * unat n) = load example_heap 1 48"
    using rt o by (simp add: sizeof_OSMNode fr(1,3)) blast
  show ?thesis using d c w fr(1,3) r1 r2 r3 by blast
qed

text \<open>
  Claim C8, evaluated. The code opens the destination and writes without looking at
  either result (its comment: \<^verbatim>\<open>TODO: error checking\<close>). On a path that cannot be opened
  \<^verbatim>\<open>fwrite\<close> is handed the null stream: the call does not return a failure, the process
  faults. On a device that takes only part of the data, the file ends shorter than
  one record and the function still returns 1. No result distinguishes the two.
\<close>

theorem export_reports_no_failure:
  "osmway_export example_heap example_disk 1 1 ''/nonexistent/ways.bin'' = Inl NullPointer \<and>
   osmwaynode_export example_heap example_disk 1 1 ''/nonexistent/ways.bin'' = Inl NullPointer \<and>
   (\<exists>fs'. osmway_export example_heap (example_disk\<lparr>room := 100\<rparr>) 1 1 ''ways.bin'' =
            Inr (fs', 1) \<and>
          length (content fs' ''ways.bin'') = 100 \<and> 100 < 1 * sizeof OSMWay) \<and>
   (\<exists>fs'. osmwaynode_export example_heap (example_disk\<lparr>room := 20\<rparr>) 1 1 ''ways.bin'' =
            Inr (fs', 1) \<and>
          length (content fs' ''ways.bin'') = 20 \<and> 20 < 1 * sizeof OSMWayNode)"
proof -
  have v: "valid example_heap 1 320" "valid example_heap 1 56"
    by (simp_all add: valid_def example_heap_bytes example_heap_limit)
  have l: "length (load example_heap 1 320) = 320" "length (load example_heap 1 56) = 56"
    by (simp_all add: length_load example_heap_bytes example_heap_limit)
  have s: "unat (scast (1 :: 32 word) :: 64 word) = 1" by simp
  have a: "osmway_export example_heap example_disk 1 1 ''/nonexistent/ways.bin'' =
             Inl NullPointer"
    by (simp add: osmway_export_def fopen_def fwrite_def example_disk_def)
  have b: "osmwaynode_export example_heap example_disk 1 1 ''/nonexistent/ways.bin'' =
             Inl NullPointer"
    by (simp add: osmwaynode_export_def fopen_def fwrite_def example_disk_def)
  have c: "\<exists>fs'. osmway_export example_heap (example_disk\<lparr>room := 100\<rparr>) 1 1 ''ways.bin'' =
                  Inr (fs', 1) \<and>
          length (content fs' ''ways.bin'') = 100 \<and> 100 < 1 * sizeof OSMWay"
    using v l
    by (simp add: osmway_export_def fopen_def fwrite_def fclose_def example_disk_def
        sizeof_OSMWay content_def Let_def s)
  have d: "\<exists>fs'. osmwaynode_export example_heap (example_disk\<lparr>room := 20\<rparr>) 1 1 ''ways.bin'' =
                  Inr (fs', 1) \<and>
          length (content fs' ''ways.bin'') = 20 \<and> 20 < 1 * sizeof OSMWayNode"
    using v l
    by (simp add: osmwaynode_export_def fopen_def fwrite_def fclose_def example_disk_def
        sizeof_OSMWayNode content_def Let_def s)
  show ?thesis using a b c d by blast
qed

text \<open>
  Claim C2, evaluated. A file of 400 bytes is a multiple of neither record size. The
  import of Way records returns count 1 and the import of Way-shape-node records
  count 7, each with a buffer and no failure: the remainder is dropped silently (the
  code's comment: \<^verbatim>\<open>TODO: make sure file size is exactly a multiple\<close>). A path that cannot
  be opened, or names no file, sends the null stream to \<^verbatim>\<open>fseek\<close>: no open error is
  returned, the process faults.
\<close>

theorem import_reports_no_failure:
  "(\<exists>h'. osmway_import example_heap truncated_disk ''ways.bin'' = Inr (h', 416, 1)) \<and>
   length (content truncated_disk ''ways.bin'') = 400 \<and> 400 mod sizeof OSMWay \<noteq> 0 \<and>
   (\<exists>h'. osmwaynode_import example_heap truncated_disk ''ways.bin'' = Inr (h', 416, 7)) \<and>
   400 mod sizeof OSMWayNode \<noteq> 0 \<and>
   osmway_import example_heap truncated_disk ''/nonexistent/ways.bin'' = Inl NullPointer \<and>
   osmwaynode_import example_heap truncated_disk ''/nonexistent/ways.bin'' = Inl NullPointer \<and>
   osmway_import example_heap truncated_disk ''missing.bin'' = Inl NullPointer"
proof -
  have f: "files truncated_disk ''ways.bin'' = Some (replicate 400 7)"
    "\<not> denied truncated_disk ''ways.bin''"
    by (simp_all add: truncated_disk_def example_disk_def)
  have fr: "fresh example_heap = 416" by (simp add: fresh_def example_heap_bytes example_heap_limit)
  have lim: "limit example_heap = 4096" by (simp add: example_heap_bytes example_heap_limit)
  have a: "\<exists>h'. osmway_import example_heap truncated_disk ''ways.bin'' = Inr (h', 416, 1)"
    using import_records_ok[OF f, of "sizeof OSMWay" example_heap]
    by (simp add: osmway_import_eq sizeof_OSMWay fr lim) blast
  have b: "\<exists>h'. osmwaynode_import example_heap truncated_disk ''ways.bin'' = Inr (h', 416, 7)"
    using import_records_ok[OF f, of "sizeof OSMWayNode" example_heap]
    by (simp add: osmwaynode_import_eq sizeof_OSMWayNode fr lim) blast
  have c: "osmway_import example_heap truncated_disk ''/nonexistent/ways.bin'' = Inl NullPointer"
    "osmwaynode_import example_heap truncated_disk ''/nonexistent/ways.bin'' = Inl NullPointer"
    "osmway_import example_heap truncated_disk ''missing.bin'' = Inl NullPointer"
    by (simp_all add: osmway_import_def osmwaynode_import_def fopen_def fseek_def
        truncated_disk_def example_disk_def)
  show ?thesis using a b c
    by (simp add: content_def f sizeof_OSMWay sizeof_OSMWayNode)
qed

section \<open>Layouts, members as bit ranges\<close>

lemma OSMNode_layout: "layout 0 OSMNode =
    [(''osmid_'', 0, 64), (''name_index_'', 64, 21), (''ref_index_'', 85, 21),
     (''exit_to_index_'', 106, 21), (''named_intersection_'', 127, 1),
     (''country_iso_index_'', 128, 21), (''state_iso_index_'', 149, 21),
     (''traffic_signal_'', 170, 1), (''forward_signal_'', 171, 1),
     (''backward_signal_'', 172, 1), (''stop_sign_'', 173, 1), (''forward_stop_'', 174, 1),
     (''backward_stop_'', 175, 1), (''yield_sign_'', 176, 1), (''forward_yield_'', 177, 1),
     (''backward_yield_'', 178, 1), (''minor_'', 179, 1), (''direction_'', 180, 1),
     (''spare_'', 181, 11), (''access_'', 192, 12), (''type_'', 204, 4),
     (''intersection_'', 208, 1), (''non_link_edge_'', 209, 1), (''link_edge_'', 210, 1),
     (''shortlink_'', 211, 1), (''non_ferry_edge_'', 212, 1), (''ferry_edge_'', 213, 1),
     (''flat_loop_'', 214, 1), (''urban_'', 215, 1), (''tagged_access_'', 216, 1),
     (''private_access_'', 217, 1), (''cash_only_toll_'', 218, 1), (''spare1_'', 219, 5),
     (''bss_info_'', 224, 32), (''linguistic_info_index_'', 256, 32), (''lng7_'', 288, 32),
     (''lat7_'', 320, 32)]"
  by (simp add: OSMNode_def round_up_def)

lemma OSMWay_layout: "layout 0 OSMWay =
    [(''osmwayid_'', 0, 64), (''ref_index_'', 64, 32), (''ref_lang_index_'', 96, 32),
     (''ref_left_index_'', 128, 32), (''ref_left_lang_index_'', 160, 32),
     (''ref_right_index_'', 192, 32), (''ref_right_lang_index_'', 224, 32),
     (''int_ref_index_'', 256, 32), (''int_ref_lang_index_'', 288, 32),
     (''int_ref_left_index_'', 320, 32), (''int_ref_left_lang_index_'', 352, 32),
     (''int_ref_right_index_'', 384, 32), (''int_ref_right_lang_index_'', 416, 32),
     (''name_index_'', 448, 32), (''name_lang_index_'', 480, 32),
     (''name_left_index_'', 512, 32), (''name_left_lang_index_'', 544, 32),
     (''name_right_index_'', 576, 32), (''name_right_lang_index_'', 608, 32),
     (''name_forward_index_'', 640, 32), (''name_forward_lang_index_'', 672, 32),
     (''name_backward_index_'', 704, 32), (''name_backward_lang_index_'', 736, 32),
     (''alt_name_index_'', 768, 32), (''alt_name_lang_index_'', 800, 32),
     (''alt_name_left_index_'', 832, 32), (''alt_name_left_lang_index_'', 864, 32),
     (''alt_name_right_index_'', 896, 32), (''alt_name_right_lang_index_'', 928, 32),
     (''official_name_index_'', 960, 32), (''official_name_lang_index_'', 992, 32),
     (''official_name_left_index_'', 1024, 32), (''official_name_left_lang_index_'', 1056, 32),
     (''official_name_right_index_'', 1088, 32), (''official_name_right_lang_index_'', 1120, 32),
     (''tunnel_name_index_'', 1152, 32), (''tunnel_name_lang_index_'', 1184, 32),
     (''tunnel_name_left_index_'', 1216, 32), (''tunnel_name_left_lang_index_'', 1248, 32),
     (''tunnel_name_right_index_'', 1280, 32), (''tunnel_name_right_lang_index_'', 1312, 32),
     (''fwd_turn_lanes_index_'', 1344, 32), (''bwd_turn_lanes_index_'', 1376, 32),
     (''fwd_jct_base_index_'', 1408, 32), (''bwd_jct_base_index_'', 1440, 32),
     (''fwd_jct_overlay_index_'', 1472, 32), (''bwd_jct_overlay_index_'', 1504, 32),
     (''fwd_signboard_base_index_'', 1536, 32), (''bwd_signboard_base_index_'', 1568, 32),
     (''destination_index_'', 1600, 32), (''destination_lang_index_'', 1632, 32),
     (''destination_forward_index_'', 1664, 32), (''destination_backward_index_'', 1696, 32),
     (''destination_forward_lang_index_'', 1728, 32),
     (''destination_backward_lang_index_'', 1760, 32), (''destination_ref_index_'', 1792, 32),
     (''destination_ref_lang_index_'', 1824, 32), (''destination_ref_to_index_'', 1856, 32),
     (''destination_ref_to_lang_index_'', 1888, 32), (''destination_int_ref_index_'', 1920, 32),
     (''destination_int_ref_to_index_'', 1952, 32), (''destination_street_index_'', 1984, 32),
     (''destination_street_lang_index_'', 2016, 32),
     (''destination_street_to_index_'', 2048, 32),
     (''destination_street_to_lang_index_'', 2080, 32), (''junction_name_index_'', 2112, 32),
     (''junction_name_lang_index_'', 2144, 32), (''junction_ref_index_'', 2176, 32),
     (''junction_ref_lang_index_'', 2208, 32), (''level_index_'', 2240, 32),
     (''level_ref_index_'', 2272, 32), (''duration_'', 2304, 32),
     (''destination_only_'', 2336, 1), (''no_thru_traffic_'', 2337, 1), (''oneway_'', 2338, 1),
     (''oneway_reverse_'', 2339, 1), (''roundabout_'', 2340, 1), (''ferry_'', 2341, 1),
     (''rail_'', 2342, 1), (''surface_'', 2343, 3), (''tunnel_'', 2346, 1), (''toll_'', 2347, 1),
     (''bridge_'', 2348, 1), (''seasonal_'', 2349, 1), (''drive_on_right_'', 2350, 1),
     (''bike_network_'', 2351, 4), (''exit_'', 2355, 1), (''tagged_speed_'', 2356, 1),
     (''forward_tagged_speed_'', 2357, 1), (''backward_tagged_speed_'', 2358, 1),
     (''tagged_lanes_'', 2359, 1), (''forward_tagged_lanes_'', 2360, 1),
     (''backward_tagged_lanes_'', 2361, 1), (''truck_route_'', 2362, 1),
     (''sidewalk_right_'', 2363, 1), (''sidewalk_left_'', 2364, 1), (''sac_scale_'', 2365, 3),
     (''road_class_'', 2368, 3), (''link_'', 2371, 1), (''use_'', 2372, 6),
     (''lanes_'', 2378, 4), (''forward_lanes_'', 2382, 4), (''backward_lanes_'', 2386, 4),
     (''turn_channel_'', 2390, 1), (''wheelchair_'', 2391, 1), (''wheelchair_tag_'', 2392, 1),
     (''has_user_tags_'', 2393, 1), (''has_pronunciation_tags_'', 2394, 1),
     (''internal_'', 2395, 1), (''hov_type_'', 2396, 1), (''indoor_'', 2397, 1),
     (''pedestrian_forward_'', 2398, 1), (''pedestrian_backward_'', 2399, 1),
     (''auto_forward_'', 2400, 1), (''bus_forward_'', 2401, 1), (''taxi_forward_'', 2402, 1),
     (''truck_forward_'', 2403, 1), (''motorcycle_forward_'', 2404, 1),
     (''emergency_forward_'', 2405, 1), (''hov_forward_'', 2406, 1),
     (''moped_forward_'', 2407, 1), (''auto_backward_'', 2408, 1), (''bus_backward_'', 2409, 1),
     (''taxi_backward_'', 2410, 1), (''truck_backward_'', 2411, 1),
     (''motorcycle_backward_'', 2412, 1), (''emergency_backward_'', 2413, 1),
     (''hov_backward_'', 2414, 1), (''moped_backward_'', 2415, 1),
     (''cycle_lane_right_'', 2416, 2), (''cycle_lane_left_'', 2418, 2),
     (''cycle_lane_right_opposite_'', 2420, 1), (''cycle_lane_left_opposite_'', 2421, 1),
     (''shoulder_right_'', 2422, 1), (''shoulder_left_'', 2423, 1), (''dismount_'', 2424, 1),
     (''use_sidepath_'', 2425, 1), (''bike_forward_'', 2426, 1), (''bike_backward_'', 2427, 1),
     (''lit_'', 2428, 1), (''destination_only_hgv_'', 2429, 1), (''spare2_'', 2430, 2),
     (''nodecount_'', 2432, 16), (''speed_limit_'', 2448, 8), (''speed_'', 2456, 8),
     (''backward_speed_'', 2464, 8), (''forward_speed_'', 2472, 8), (''truck_speed_'', 2480, 8),
     (''truck_speed_forward_'', 2488, 8), (''truck_speed_backward_'', 2496, 8),
     (''layer_'', 2504, 8)]"
  by (simp add: OSMWay_def round_up_def)

lemma unat_byte_less: "unat (b :: byte) < 256"
  using unsigned_less[of b, where 'a=nat] by simp

lemma le_nat_less: "le_nat bs < 2 ^ (8 * length bs)"
proof (induction bs)
  case Nil show ?case by simp
next
  case (Cons b bs)
  have "unat b + 256 * le_nat bs < 256 + 256 * le_nat bs" using unat_byte_less[of b] by simp
  also have "\<dots> = 256 * (le_nat bs + 1)" by simp
  also have "\<dots> \<le> 256 * 2 ^ (8 * length bs)" using Cons by (intro mult_le_mono2) simp
  finally show ?case by (simp add: power_add)
qed

lemma bit_le_nat: "bit (le_nat bs) j \<Longrightarrow> j < 8 * length bs"
  using le_nat_less[of bs] 
  by (metis bit_take_bit_iff take_bit_nat_eq_self)

lemma length_nat_le: "length (nat_le n v) = n"
  by (induction n arbitrary: v) auto

lemma le_nat_nat_le: "le_nat (nat_le n v) = take_bit (8 * n) v"
proof (induction n arbitrary: v)
  case 0 show ?case by simp
next
  case (Suc n)
  have "le_nat (nat_le (Suc n) v) = v mod 256 + 256 * take_bit (8 * n) (v div 256)"
    by (simp add: Suc unat_of_nat)
  also have "\<dots> = take_bit 8 v + push_bit 8 (take_bit (8 * n) (drop_bit 8 v))"
    by (simp add: take_bit_eq_mod drop_bit_eq_div push_bit_eq_mult)
  also have "\<dots> = take_bit (8 * Suc n) v"
  proof -
    have "push_bit 8 (drop_bit 8 (take_bit (8 * n + 8) v)) + take_bit 8 (take_bit (8 * n + 8) v) =
          take_bit (8 * n + 8) v"
      by (rule bits_ident)
    moreover have "drop_bit 8 (take_bit (8 * n + 8) v) = take_bit (8 * n) (drop_bit 8 v)"
      by (simp only: take_bit_drop_bit)
    moreover have "take_bit 8 (take_bit (8 * n + 8) v) = take_bit 8 v"
      by simp
    ultimately show ?thesis by (simp add: add.commute)
  qed
  finally show ?case .
qed

lemma get_bits_zero: "get_bits (replicate n 0) p w = 0"
proof -
  have "le_nat (replicate n 0) = 0" by (induction n) auto
  then show ?thesis by (simp add: get_bits_def)
qed

lemma length_set_bits: "length (set_bits obj p w v) = length obj"
  by (simp add: set_bits_def length_nat_le)

lemma get_set_same:
  assumes "p + w \<le> 8 * length obj"
  shows "get_bits (set_bits obj p w v) p w = take_bit w v"
  unfolding get_bits_def set_bits_def le_nat_nat_le
  using assms by (intro bit_eqI) (auto simp add: bit_simps)

lemma get_set_other:
  assumes "p' + w' \<le> p \<or> p + w \<le> p'"
  shows "get_bits (set_bits obj p w v) p' w' = get_bits obj p' w'"
  unfolding get_bits_def set_bits_def le_nat_nat_le
  using assms by (intro bit_eqI) (auto simp add: bit_simps dest: bit_le_nat)

section \<open>The default-populating Way constructor\<close>

lemma length_set_member: "length (set_member ms obj name v) = length obj"
  by (simp add: set_member_def length_set_bits split: option.splits)

lemma store_store:
  assumes "p + length bs \<le> length (bytes h)" "length cs = length bs"
  shows "store (store h p bs) p cs = store h p cs"
proof -
  have "bytes (store h p bs) = take p (bytes h) @ bs @ drop (p + length bs) (bytes h)"
    using assms(1) by (rule bytes_store)
  then have "take p (bytes (store h p bs)) @ cs @ drop (p + length cs) (bytes (store h p bs)) =
             take p (bytes h) @ cs @ drop (p + length cs) (bytes h)"
    using assms by simp
  then show ?thesis
    unfolding store_def[of "store h p bs"] by (simp add: store_def)
qed

lemma length_foldl_set_member:
  "length (foldl (\<lambda>r (n, v). set_member ms r n v) obj fs) = length obj"
  by (induction fs arbitrary: obj) (auto simp: length_set_member)

lemma assigns_ok:
  assumes "0 < a" "a + sizeof ms \<le> length (bytes h)" "length r = sizeof ms"
  shows "assigns ms (store h a r) a fs =
           Inr (store h a (foldl (\<lambda>r (n, v). set_member ms r n v) r fs))"
  using assms(3)
proof (induction fs arbitrary: r)
  case Nil
  then show ?case by simp
next
  case (Cons f fs)
  obtain n v where f: "f = (n, v)" by (cases f)
  let ?r = "set_member ms r n v"
  have fit: "a + length r \<le> length (bytes h)" using assms(2) Cons.prems by simp
  have lr: "length ?r = sizeof ms" using Cons.prems by (simp add: length_set_member)
  have v: "valid (store h a r) a (sizeof ms)"
    using assms(1,2) fit by (simp add: valid_def length_store)
  have ld: "load (store h a r) a (sizeof ms) = r"
    using load_store_same[OF fit] Cons.prems by simp
  have "assigns ms (store h a r) a (f # fs) = assigns ms (store (store h a r) a ?r) a fs"
    using v by (simp add: f assign_def ld)
  also have "store (store h a r) a ?r = store h a ?r"
    using fit lr Cons.prems by (intro store_store) simp_all
  also have "assigns ms (store h a ?r) a fs =
               Inr (store h a (foldl (\<lambda>r (n, v). set_member ms r n v) ?r fs))"
    by (rule Cons.IH[OF lr])
  finally show ?case by (simp add: f)
qed

lemma slot_eq: "s + unat index * sz < 2 ^ 64 \<Longrightarrow> slot s index sz = s + unat index * sz"
  by (simp add: slot_def ptr_add_def)

lemma ptr_add_0: "p < 2 ^ 64 \<Longrightarrow> ptr_add p 0 = p"
  by (simp add: ptr_add_def)

lemma slot_less: "slot s index sz < 2 ^ 64"
  by (simp add: slot_def ptr_add_def)

lemma slot_bounds:
  assumes "array_at h s sz n" "i < n"
  shows "0 < s + i * sz" "s + i * sz + sz \<le> length (bytes h)"
proof -
  have "sz * (i + 1) \<le> sz * n" using assms(2) by (intro mult_le_mono2) simp
  then show "0 < s + i * sz" "s + i * sz + sz \<le> length (bytes h)"
    using assms(1) by (simp_all add: array_at_def mult.commute)
qed

lemma slot_in_array:
  assumes "array_at h s sz n" "unat index < n" "0 < sz"
  shows "slot s index sz = s + unat index * sz"
proof -
  have "s + unat index * sz + sz \<le> 2 ^ 64"
    using slot_bounds(2)[OF assms(1,2)] length_bytes[of h] by (rule le_trans)
  then show ?thesis using assms(3) by (intro slot_eq) simp
qed

lemma length_valhalla_way: "length (valhalla_way a b c) = sizeof OSMWay"
  by (simp only: valhalla_way_def length_foldl_set_member length_replicate)

lemma set_to_valhalla_at:
  assumes "0 < slot s index (sizeof OSMWay)"
    "slot s index (sizeof OSMWay) + sizeof OSMWay \<le> length (bytes h)"
  shows "osmway_set_to_valhalla h s index osmid name_index nodecount =
           Inr (store h (slot s index (sizeof OSMWay))
                  (valhalla_way (unat osmid) (unat name_index) (unat nodecount)))"
proof -
  let ?a = "slot s index (sizeof OSMWay)"
  let ?sz = "sizeof OSMWay"
  have v: "valid h ?a ?sz" using assms by (simp add: valid_def)
  have ms: "memset h ?a 0 ?sz = Inr (store h ?a (replicate ?sz 0))"
    using v by (simp add: memset_def)
  show ?thesis
    unfolding osmway_set_to_valhalla_def ms sum.case
    by (simp only: assigns_ok[OF assms length_replicate] valhalla_way_def)
qed

lemma osmway_set_to_valhalla_ok:
  assumes "array_at h s (sizeof OSMWay) n" "unat index < n"
  shows "osmway_set_to_valhalla h s index osmid name_index nodecount =
           Inr (store h (s + unat index * sizeof OSMWay)
                  (valhalla_way (unat osmid) (unat name_index) (unat nodecount)))"
proof -
  have sl: "slot s index (sizeof OSMWay) = s + unat index * sizeof OSMWay"
    using assms by (rule slot_in_array) (simp add: sizeof_OSMWay)
  show ?thesis
    using set_to_valhalla_at[of s index h osmid name_index nodecount] slot_bounds[OF assms]
    by (simp only: sl)
qed

lemma map_of_key_cong: "k = k' \<Longrightarrow> map_of xs k = map_of xs k'"
  by simp

lemma list_all_hold: "list_all P xs = list_all P xs"
  by simp

lemma field_osmwayid: "field OSMWay ''osmwayid_'' = Some (0, 64)"
  unfolding field_def OSMWay_layout
  by (simp add: map_of_Cons_code del: map_of.simps cong: map_of_key_cong)

lemma field_name_index: "field OSMWay ''name_index_'' = Some (448, 32)"
  unfolding field_def OSMWay_layout
  by (simp add: map_of_Cons_code del: map_of.simps cong: map_of_key_cong)

lemma field_nodecount: "field OSMWay ''nodecount_'' = Some (2432, 16)"
  unfolding field_def OSMWay_layout
  by (simp add: map_of_Cons_code del: map_of.simps cong: map_of_key_cong)

lemma field_surface: "field OSMWay ''surface_'' = Some (2343, 3)"
  unfolding field_def OSMWay_layout
  by (simp add: map_of_Cons_code del: map_of.simps cong: map_of_key_cong)

lemma field_drive_on_right: "field OSMWay ''drive_on_right_'' = Some (2350, 1)"
  unfolding field_def OSMWay_layout
  by (simp add: map_of_Cons_code del: map_of.simps cong: map_of_key_cong)

lemma field_road_class: "field OSMWay ''road_class_'' = Some (2368, 3)"
  unfolding field_def OSMWay_layout
  by (simp add: map_of_Cons_code del: map_of.simps cong: map_of_key_cong)

lemma field_use: "field OSMWay ''use_'' = Some (2372, 6)"
  unfolding field_def OSMWay_layout
  by (simp add: map_of_Cons_code del: map_of.simps cong: map_of_key_cong)

lemma field_has_user_tags: "field OSMWay ''has_user_tags_'' = Some (2393, 1)"
  unfolding field_def OSMWay_layout
  by (simp add: map_of_Cons_code del: map_of.simps cong: map_of_key_cong)

lemma field_pedestrian_forward: "field OSMWay ''pedestrian_forward_'' = Some (2398, 1)"
  unfolding field_def OSMWay_layout
  by (simp add: map_of_Cons_code del: map_of.simps cong: map_of_key_cong)

lemma field_pedestrian_backward: "field OSMWay ''pedestrian_backward_'' = Some (2399, 1)"
  unfolding field_def OSMWay_layout
  by (simp add: map_of_Cons_code del: map_of.simps cong: map_of_key_cong)

lemma field_speed: "field OSMWay ''speed_'' = Some (2456, 8)"
  unfolding field_def OSMWay_layout
  by (simp add: map_of_Cons_code del: map_of.simps cong: map_of_key_cong)

lemmas way_fields = field_osmwayid field_name_index field_nodecount field_surface
  field_drive_on_right field_road_class field_use field_has_user_tags field_pedestrian_forward
  field_pedestrian_backward field_speed

lemma valhalla_way_bits: "valhalla_way a b c =
   set_bits (set_bits (set_bits (set_bits (set_bits (set_bits (set_bits (set_bits (set_bits
     (set_bits (set_bits (replicate 320 0) 0 64 a) 448 32 b) 2432 16 c) 2343 3 3) 2350 1 1) 2368 3 7)
       2372 6 25) 2393 1 0) 2398 1 1) 2399 1 1) 2456 8 25"
  by (simp add: valhalla_way_def set_member_def way_fields sizeof_OSMWay)

lemma valhalla_way_assigned:
  "member_val OSMWay (valhalla_way a b c) ''osmwayid_'' = take_bit 64 a"
  "member_val OSMWay (valhalla_way a b c) ''name_index_'' = take_bit 32 b"
  "member_val OSMWay (valhalla_way a b c) ''nodecount_'' = take_bit 16 c"
  "member_val OSMWay (valhalla_way a b c) ''surface_'' = 3"
  "member_val OSMWay (valhalla_way a b c) ''drive_on_right_'' = 1"
  "member_val OSMWay (valhalla_way a b c) ''road_class_'' = 7"
  "member_val OSMWay (valhalla_way a b c) ''use_'' = 25"
  "member_val OSMWay (valhalla_way a b c) ''has_user_tags_'' = 0"
  "member_val OSMWay (valhalla_way a b c) ''pedestrian_forward_'' = 1"
  "member_val OSMWay (valhalla_way a b c) ''pedestrian_backward_'' = 1"
  "member_val OSMWay (valhalla_way a b c) ''speed_'' = 25"
  by (simp_all add: member_val_def way_fields valhalla_way_bits get_set_other get_set_same
      length_set_bits)

lemma valhalla_way_layout_others:
  "list_all (\<lambda>(n, p, w). n \<in> set valhalla_assigned \<or> get_bits (valhalla_way a b c) p w = 0)
     (layout 0 OSMWay)"
  unfolding OSMWay_layout
  by (simp add: valhalla_assigned_def valhalla_way_bits get_set_other get_bits_zero
      cong: list_all_hold)

lemma valhalla_way_others:
  assumes "f \<notin> set valhalla_assigned"
  shows "member_val OSMWay (valhalla_way a b c) f = 0"
proof (cases "field OSMWay f")
  case None
  then show ?thesis by (simp add: member_val_def)
next
  case (Some pw)
  obtain p w where pw: "pw = (p, w)" by (cases pw)
  have "(f, p, w) \<in> set (layout 0 OSMWay)"
    using Some pw by (auto simp: field_def dest: map_of_SomeD)
  then have "f \<in> set valhalla_assigned \<or> get_bits (valhalla_way a b c) p w = 0"
    using valhalla_way_layout_others[of a b c] by (auto simp: list_all_iff)
  then show ?thesis using assms Some pw by (simp add: member_val_def)
qed

lemma record_at_valhalla:
  assumes "array_at h s (sizeof OSMWay) n" "unat index < n"
  shows "record_at (store h (s + unat index * sizeof OSMWay) (valhalla_way a b c)) s
           (sizeof OSMWay) (unat index) = valhalla_way a b c"
proof -
  have "sizeof OSMWay * (unat index + 1) \<le> sizeof OSMWay * n"
    using assms(2) by (intro mult_le_mono2) simp
  then have "s + unat index * sizeof OSMWay + sizeof OSMWay \<le> length (bytes h)"
    using assms(1) by (simp add: array_at_def mult.commute)
  then show ?thesis
    using load_store_same[of "s + unat index * sizeof OSMWay" "valhalla_way a b c" h]
    by (simp add: record_at_def length_valhalla_way)
qed

lemma take_bit_unat64: "take_bit 64 (unat (x :: 64 word)) = unat x"
  using unsigned_less[of x, where 'a=nat] by (simp add: take_bit_nat_eq_self)

lemma valhalla_way_id:
  "member_val OSMWay (valhalla_way (unat (x :: 64 word)) b c) ''osmwayid_'' = unat x"
  by (simp only: valhalla_way_assigned take_bit_unat64)

lemma valhalla_way_inputs:
  "member_val OSMWay (valhalla_way a b c) ''name_index_'' = b mod 2 ^ 32"
  "member_val OSMWay (valhalla_way a b c) ''nodecount_'' = c mod 2 ^ 16"
  by (simp_all only: valhalla_way_assigned take_bit_eq_mod)

text \<open>
  Claim C4, as amended. For an index inside the array and any three arguments, the
  default-populating Way constructor returns, and the record at that index then has:
  id equal to the argument; name index equal to the argument modulo \<open>2 ^ 32\<close> and node
  count equal to the argument modulo \<open>2 ^ 16\<close> (so equal to the argument when it fits
  the member); surface 3 (compacted), drive-on-right 1, road class 7 (service/other),
  use 25 (footway), pedestrian-forward 1, pedestrian-backward 1, speed 25,
  has-user-tags 0; and every other member of \<^verbatim>\<open>struct OSMWay\<close> (speed limit, the access
  bits, all other attribute bits and indices) equal to 0.
\<close>

theorem way_defaults:
  assumes "array_at h s (sizeof OSMWay) n" and "unat index < n"
  shows "\<exists>h'. osmway_set_to_valhalla h s index osmid name_index nodecount = Inr h' \<and>
     member_val OSMWay (record_at h' s (sizeof OSMWay) (unat index)) ''osmwayid_'' = unat osmid \<and>
     member_val OSMWay (record_at h' s (sizeof OSMWay) (unat index)) ''name_index_'' =
       unat name_index mod 2 ^ 32 \<and>
     member_val OSMWay (record_at h' s (sizeof OSMWay) (unat index)) ''nodecount_'' =
       unat nodecount mod 2 ^ 16 \<and>
     member_val OSMWay (record_at h' s (sizeof OSMWay) (unat index)) ''surface_'' = 3 \<and>
     member_val OSMWay (record_at h' s (sizeof OSMWay) (unat index)) ''drive_on_right_'' = 1 \<and>
     member_val OSMWay (record_at h' s (sizeof OSMWay) (unat index)) ''road_class_'' = 7 \<and>
     member_val OSMWay (record_at h' s (sizeof OSMWay) (unat index)) ''use_'' = 25 \<and>
     member_val OSMWay (record_at h' s (sizeof OSMWay) (unat index)) ''pedestrian_forward_'' = 1 \<and>
     member_val OSMWay (record_at h' s (sizeof OSMWay) (unat index)) ''pedestrian_backward_'' = 1 \<and>
     member_val OSMWay (record_at h' s (sizeof OSMWay) (unat index)) ''speed_'' = 25 \<and>
     member_val OSMWay (record_at h' s (sizeof OSMWay) (unat index)) ''has_user_tags_'' = 0 \<and>
     (\<forall>f\<in>set (map member_name OSMWay). f \<notin> set valhalla_assigned \<longrightarrow>
        member_val OSMWay (record_at h' s (sizeof OSMWay) (unat index)) f = 0)"
  using osmway_set_to_valhalla_ok[OF assms, of osmid name_index nodecount]
  by (simp add: record_at_valhalla[OF assms] valhalla_way_id valhalla_way_inputs valhalla_way_assigned(4-11)
      valhalla_way_others)

theorem way_defaults_witness:
  "array_at example_heap 1 (sizeof OSMWay) 1 \<and> unat (0 :: 64 word) < 1 \<and>
   (\<exists>h'. osmway_set_to_valhalla example_heap 1 0 42 7 3 = Inr h' \<and>
     member_val OSMWay (record_at h' 1 (sizeof OSMWay) 0) ''osmwayid_'' = 42 \<and>
     member_val OSMWay (record_at h' 1 (sizeof OSMWay) 0) ''name_index_'' = 7 \<and>
     member_val OSMWay (record_at h' 1 (sizeof OSMWay) 0) ''nodecount_'' = 3 \<and>
     member_val OSMWay (record_at h' 1 (sizeof OSMWay) 0) ''surface_'' = 3 \<and>
     member_val OSMWay (record_at h' 1 (sizeof OSMWay) 0) ''drive_on_right_'' = 1 \<and>
     member_val OSMWay (record_at h' 1 (sizeof OSMWay) 0) ''road_class_'' = 7 \<and>
     member_val OSMWay (record_at h' 1 (sizeof OSMWay) 0) ''use_'' = 25 \<and>
     member_val OSMWay (record_at h' 1 (sizeof OSMWay) 0) ''pedestrian_forward_'' = 1 \<and>
     member_val OSMWay (record_at h' 1 (sizeof OSMWay) 0) ''pedestrian_backward_'' = 1 \<and>
     member_val OSMWay (record_at h' 1 (sizeof OSMWay) 0) ''speed_'' = 25 \<and>
     member_val OSMWay (record_at h' 1 (sizeof OSMWay) 0) ''has_user_tags_'' = 0 \<and>
     member_val OSMWay (record_at h' 1 (sizeof OSMWay) 0) ''speed_limit_'' = 0 \<and>
     member_val OSMWay (record_at h' 1 (sizeof OSMWay) 0) ''auto_forward_'' = 0)"
proof -
  have a: "array_at example_heap 1 (sizeof OSMWay) 1"
    by (simp add: array_at_def example_heap_bytes example_heap_limit sizeof_OSMWay)
  have i: "unat (0 :: 64 word) < 1" by simp
  have m: "''speed_limit_'' \<in> set (map member_name OSMWay)"
    "''auto_forward_'' \<in> set (map member_name OSMWay)"
    by (simp_all add: OSMWay_def)
  have n: "''speed_limit_'' \<notin> set valhalla_assigned" "''auto_forward_'' \<notin> set valhalla_assigned"
    by (simp_all add: valhalla_assigned_def)
  obtain h' where h': "osmway_set_to_valhalla example_heap 1 0 42 7 3 = Inr h' \<and>
     member_val OSMWay (record_at h' 1 (sizeof OSMWay) (unat (0 :: 64 word))) ''osmwayid_'' = unat (42 :: 64 word) \<and>
     member_val OSMWay (record_at h' 1 (sizeof OSMWay) (unat (0 :: 64 word))) ''name_index_'' =
       unat (7 :: 64 word) mod 2 ^ 32 \<and>
     member_val OSMWay (record_at h' 1 (sizeof OSMWay) (unat (0 :: 64 word))) ''nodecount_'' =
       unat (3 :: 64 word) mod 2 ^ 16 \<and>
     member_val OSMWay (record_at h' 1 (sizeof OSMWay) (unat (0 :: 64 word))) ''surface_'' = 3 \<and>
     member_val OSMWay (record_at h' 1 (sizeof OSMWay) (unat (0 :: 64 word))) ''drive_on_right_'' = 1 \<and>
     member_val OSMWay (record_at h' 1 (sizeof OSMWay) (unat (0 :: 64 word))) ''road_class_'' = 7 \<and>
     member_val OSMWay (record_at h' 1 (sizeof OSMWay) (unat (0 :: 64 word))) ''use_'' = 25 \<and>
     member_val OSMWay (record_at h' 1 (sizeof OSMWay) (unat (0 :: 64 word))) ''pedestrian_forward_'' = 1 \<and>
     member_val OSMWay (record_at h' 1 (sizeof OSMWay) (unat (0 :: 64 word))) ''pedestrian_backward_'' = 1 \<and>
     member_val OSMWay (record_at h' 1 (sizeof OSMWay) (unat (0 :: 64 word))) ''speed_'' = 25 \<and>
     member_val OSMWay (record_at h' 1 (sizeof OSMWay) (unat (0 :: 64 word))) ''has_user_tags_'' = 0 \<and>
     (\<forall>f\<in>set (map member_name OSMWay). f \<notin> set valhalla_assigned \<longrightarrow>
        member_val OSMWay (record_at h' 1 (sizeof OSMWay) (unat (0 :: 64 word))) f = 0)"
    using way_defaults[OF a i, of 42 7 3] by blast
  then have "member_val OSMWay (record_at h' 1 (sizeof OSMWay) (unat (0 :: 64 word))) ''speed_limit_'' = 0"
    "member_val OSMWay (record_at h' 1 (sizeof OSMWay) (unat (0 :: 64 word))) ''auto_forward_'' = 0"
    using m n by blast+
  then show ?thesis using a i h' by (intro conjI exI[of _ h']) simp_all
qed

text \<open>Claim C4 as stated says the name index and the node count of the record equal the
  arguments for every argument. With name index \<open>2 ^ 32\<close> and node count \<open>65536\<close> the call
  returns and both members are 0.\<close>

theorem way_defaults_counterexample:
  "\<not> isl (osmway_set_to_valhalla example_heap 1 0 42 4294967296 65536) \<and>
   member_val OSMWay
     (record_at (projr (osmway_set_to_valhalla example_heap 1 0 42 4294967296 65536)) 1
        (sizeof OSMWay) 0) ''name_index_'' = 0 \<and>
   member_val OSMWay
     (record_at (projr (osmway_set_to_valhalla example_heap 1 0 42 4294967296 65536)) 1
        (sizeof OSMWay) 0) ''nodecount_'' = 0 \<and>
   unat (4294967296 :: 64 word) = 4294967296 \<and> unat (65536 :: 64 word) = 65536"
proof -
  have a: "array_at example_heap 1 (sizeof OSMWay) 1"
    by (simp add: array_at_def example_heap_bytes example_heap_limit sizeof_OSMWay)
  have i: "unat (0 :: 64 word) < 1" by simp
  note run = osmway_set_to_valhalla_ok[OF a i, of 42 4294967296 65536]
  note rec = record_at_valhalla[OF a i, of "unat (42 :: 64 word)" "unat (4294967296 :: 64 word)"
      "unat (65536 :: 64 word)"]
  have u: "unat (0 :: 64 word) = 0" by simp
  show ?thesis
    unfolding run sum.sel sum.disc
    using rec unfolding u
    by (simp add: valhalla_way_inputs)
qed

text \<open>
  Claim C10. The name-index and node-count arguments are 64 bits wide and the members
  32 and 16 bits: for an index inside the array and any arguments the call returns
  (nothing is rejected) and the record holds the name index modulo \<open>2 ^ 32\<close> and the
  node count modulo \<open>2 ^ 16\<close>. A node count of 65536 or more is wrapped.
\<close>

theorem way_narrowing:
  assumes "array_at h s (sizeof OSMWay) n" and "unat index < n"
  shows "\<exists>h'. osmway_set_to_valhalla h s index osmid name_index nodecount = Inr h' \<and>
     member_val OSMWay (record_at h' s (sizeof OSMWay) (unat index)) ''name_index_'' =
       unat name_index mod 2 ^ 32 \<and>
     member_val OSMWay (record_at h' s (sizeof OSMWay) (unat index)) ''nodecount_'' =
       unat nodecount mod 2 ^ 16"
  using osmway_set_to_valhalla_ok[OF assms, of osmid name_index nodecount]
  by (simp add: record_at_valhalla[OF assms] valhalla_way_inputs)

theorem way_narrowing_witness:
  "array_at example_heap 1 (sizeof OSMWay) 1 \<and> unat (0 :: 64 word) < 1 \<and>
   (\<exists>h'. osmway_set_to_valhalla example_heap 1 0 42 4294967303 65539 = Inr h' \<and>
     member_val OSMWay (record_at h' 1 (sizeof OSMWay) 0) ''name_index_'' = 7 \<and>
     member_val OSMWay (record_at h' 1 (sizeof OSMWay) 0) ''nodecount_'' = 3)"
proof -
  have a: "array_at example_heap 1 (sizeof OSMWay) 1"
    by (simp add: array_at_def example_heap_bytes example_heap_limit sizeof_OSMWay)
  have i: "unat (0 :: 64 word) < 1" by simp
  show ?thesis
    using way_narrowing[OF a i, of 42 4294967303 65539] a by simp
qed

section \<open>Allocation and clearing\<close>

lemma size_mul_exact: "sz * unat count < 2 ^ 64 \<Longrightarrow> size_mul sz count = sz * unat count"
  using size_mul_small[of sz "unat count"] by simp

lemma load_store_inside:
  assumes "p + length bs \<le> length (bytes h)" "k + m \<le> length bs"
  shows "load (store h p bs) (p + k) m = take m (drop k bs)"
proof -
  have "drop (p + k) (take p (bytes h) @ bs @ drop (p + length bs) (bytes h)) =
        drop k bs @ drop (p + length bs) (bytes h)"
    using assms by simp
  then show ?thesis using assms by (simp add: load_def bytes_store)
qed

lemma memset_records_zero:
  assumes "memset h p 0 (sz * n) = Inr h'" "i < n"
  shows "record_at h' p sz i = replicate sz 0"
proof (cases "sz = 0")
  case True
  then show ?thesis by (simp add: record_at_def load_def)
next
  case False
  then have pos: "0 < sz * n" using assms(2) by simp
  have v: "valid h p (sz * n)" and h': "h' = store h p (replicate (sz * n) 0)"
    using assms(1) by (auto simp: memset_def split: if_splits)
  have b: "p + sz * n \<le> length (bytes h)" using v pos by (simp add: valid_def)
  have "sz * (i + 1) \<le> sz * n" using assms(2) by (intro mult_le_mono2) simp
  then have in_b: "i * sz + sz \<le> sz * n" by (simp add: mult.commute)
  have "load (store h p (replicate (sz * n) 0)) (p + i * sz) sz =
        take sz (drop (i * sz) (replicate (sz * n) (0 :: byte)))"
    using b in_b by (intro load_store_inside) simp_all
  also have "\<dots> = replicate sz 0" using in_b by (simp add: min_def)
  finally show ?thesis by (simp add: record_at_def h')
qed

lemma member_val_zero: "member_val ms (replicate n 0) f = 0"
  by (simp add: member_val_def get_bits_zero split: option.splits)

lemma alignof_OSMNode: "alignof_bits OSMNode = 64"
  by (simp add: alignof_bits_def OSMNode_def)

lemma OSMWayNode_layout: "layout 0 OSMWayNode =
    [(''node'', 0, 384), (''way_index'', 384, 32), (''way_shape_node_index'', 416, 32)]"
  by (simp add: OSMWayNode_def sizeof_OSMNode alignof_OSMNode round_up_def)

lemma offsetof_node: "offsetof OSMWayNode ''node'' = 0"
  by (simp add: offsetof_def field_def OSMWayNode_layout)

lemma embedded_node_zero:
  "embedded_node (replicate (sizeof OSMWayNode) 0) = replicate (sizeof OSMNode) 0"
  by (simp add: embedded_node_def sizeof_OSMWayNode sizeof_OSMNode offsetof_node)

lemma new_ok:
  assumes "fresh h + sz * unat count \<le> limit h" "sz * unat count < 2 ^ 64"
  shows "\<exists>h1 h'. malloc h (size_mul sz count) = (h1, fresh h) \<and>
           memset h1 (fresh h) 0 (size_mul sz count) = Inr h' \<and>
           memset h1 (fresh h) 0 (sz * unat count) = Inr h' \<and>
           array_at h' (fresh h) sz (unat count)"
proof -
  let ?n = "sz * unat count"
  let ?h1 = "h\<lparr>cells := bytes h @ map (junk h) [length (bytes h)..<fresh h + ?n]\<rparr>"
  have sm: "size_mul sz count = ?n" by (rule size_mul_exact[OF assms(2)])
  have m: "malloc h ?n = (?h1, fresh h)" by (rule malloc_ok[OF assms(1)])
  have len: "length (bytes ?h1) = fresh h + ?n"
    using fresh_gt[of h] by (simp add: bytes_malloc[OF assms(1)])
  have v: "valid ?h1 (fresh h) ?n" using len fresh_gt[of h] by (simp add: valid_def)
  have ms: "memset ?h1 (fresh h) 0 ?n = Inr (store ?h1 (fresh h) (replicate ?n 0))"
    using v by (simp add: memset_def)
  have "length (bytes (store ?h1 (fresh h) (replicate ?n 0))) = fresh h + ?n"
    using len by (simp add: length_store)
  then have "array_at (store ?h1 (fresh h) (replicate ?n 0)) (fresh h) sz (unat count)"
    using fresh_gt[of h] by (simp add: array_at_def)
  then show ?thesis using m ms sm by simp
qed

lemma clear_ok:
  assumes "array_at h s sz (unat count)" "sz * unat count < 2 ^ 64"
  shows "\<exists>h'. memset h s 0 (size_mul sz count) = Inr h' \<and>
              memset h s 0 (sz * unat count) = Inr h'"
  using assms by (simp add: size_mul_exact memset_def valid_def array_at_def)

text \<open>
  Claim C5. Let \<open>i\<close> be an index below \<open>count\<close>, and let \<open>count * sizeof\<close> be a size the
  64-bit \<^verbatim>\<open>size_t\<close> can hold. If the allocator has that much memory, \<^verbatim>\<open>osmway_new\<close> returns an
  array of \<open>count\<close> records; if \<open>s\<close> is an array of \<open>count\<close> records, \<^verbatim>\<open>osmway_clear\<close> returns.
  In both cases record \<open>i\<close> consists of zero bytes only, so every member of it, plain or
  bit-packed, reads 0. The same holds for \<^verbatim>\<open>osmwaynode_new\<close> and \<^verbatim>\<open>osmwaynode_clear\<close>, where
  in addition every member of the embedded Node reads 0.
\<close>

theorem new_and_clear_zero_every_field:
  assumes "i < unat count"
  shows "(fresh h + sizeof OSMWay * unat count \<le> limit h \<and> sizeof OSMWay * unat count < 2 ^ 64 \<longrightarrow>
            (\<exists>h'. osmway_new h count = Inr (h', fresh h) \<and>
                   array_at h' (fresh h) (sizeof OSMWay) (unat count) \<and>
                   record_at h' (fresh h) (sizeof OSMWay) i = replicate (sizeof OSMWay) 0 \<and>
                   (\<forall>f\<in>set (map member_name OSMWay).
                      member_val OSMWay (record_at h' (fresh h) (sizeof OSMWay) i) f = 0)))
       \<and> (array_at h s (sizeof OSMWay) (unat count) \<and> sizeof OSMWay * unat count < 2 ^ 64 \<longrightarrow>
            (\<exists>h'. osmway_clear h s count = Inr h' \<and>
                   record_at h' s (sizeof OSMWay) i = replicate (sizeof OSMWay) 0 \<and>
                   (\<forall>f\<in>set (map member_name OSMWay).
                      member_val OSMWay (record_at h' s (sizeof OSMWay) i) f = 0)))
       \<and> (fresh h + sizeof OSMWayNode * unat count \<le> limit h \<and>
          sizeof OSMWayNode * unat count < 2 ^ 64 \<longrightarrow>
            (\<exists>h'. osmwaynode_new h count = Inr (h', fresh h) \<and>
                   array_at h' (fresh h) (sizeof OSMWayNode) (unat count) \<and>
                   record_at h' (fresh h) (sizeof OSMWayNode) i = replicate (sizeof OSMWayNode) 0 \<and>
                   (\<forall>f\<in>set (map member_name OSMWayNode).
                      member_val OSMWayNode (record_at h' (fresh h) (sizeof OSMWayNode) i) f = 0) \<and>
                   (\<forall>f\<in>set (map member_name OSMNode).
                      member_val OSMNode
                        (embedded_node (record_at h' (fresh h) (sizeof OSMWayNode) i)) f = 0)))
       \<and> (array_at h s (sizeof OSMWayNode) (unat count) \<and>
          sizeof OSMWayNode * unat count < 2 ^ 64 \<longrightarrow>
            (\<exists>h'. osmwaynode_clear h s count = Inr h' \<and>
                   record_at h' s (sizeof OSMWayNode) i = replicate (sizeof OSMWayNode) 0 \<and>
                   (\<forall>f\<in>set (map member_name OSMWayNode).
                      member_val OSMWayNode (record_at h' s (sizeof OSMWayNode) i) f = 0) \<and>
                   (\<forall>f\<in>set (map member_name OSMNode).
                      member_val OSMNode (embedded_node (record_at h' s (sizeof OSMWayNode) i)) f = 0)))"
proof -
  have new: "\<exists>h'. (case malloc h (size_mul sz count) of
                     (h1, output) \<Rightarrow>
                       (case memset h1 output 0 (size_mul sz count) of
                          Inl e \<Rightarrow> Inl e
                        | Inr h2 \<Rightarrow> Inr (h2, output))) = Inr (h', fresh h) \<and>
                  array_at h' (fresh h) sz (unat count) \<and>
                  record_at h' (fresh h) sz i = replicate sz 0"
    if lim: "fresh h + sz * unat count \<le> limit h" "sz * unat count < 2 ^ 64" for sz
  proof -
    obtain h1 h' where m: "malloc h (size_mul sz count) = (h1, fresh h)"
      and s: "memset h1 (fresh h) 0 (size_mul sz count) = Inr h'"
      and s': "memset h1 (fresh h) 0 (sz * unat count) = Inr h'"
      and a: "array_at h' (fresh h) sz (unat count)"
      using new_ok[OF lim] by blast
    show ?thesis using m s a memset_records_zero[OF s' assms] by simp
  qed
  have clear: "\<exists>h'. memset h s 0 (size_mul sz count) = Inr h' \<and>
                    record_at h' s sz i = replicate sz 0"
    if "array_at h s sz (unat count)" "sz * unat count < 2 ^ 64" for sz
    using clear_ok[OF that] memset_records_zero[OF _ assms] by blast
  show ?thesis
    using new[of "sizeof OSMWay"] new[of "sizeof OSMWayNode"]
      clear[of "sizeof OSMWay"] clear[of "sizeof OSMWayNode"]
    unfolding osmway_new_def osmway_clear_def osmwaynode_new_def osmwaynode_clear_def
    by (auto simp add: member_val_zero embedded_node_zero)
qed

theorem new_and_clear_zero_every_field_witness:
  "(0 :: nat) < unat (1 :: 64 word) \<and>
   fresh example_heap + sizeof OSMWay * unat (1 :: 64 word) \<le> limit example_heap \<and>
   sizeof OSMWay * unat (1 :: 64 word) < 2 ^ 64 \<and>
   array_at example_heap 1 (sizeof OSMWay) (unat (1 :: 64 word)) \<and>
   fresh example_heap + sizeof OSMWayNode * unat (1 :: 64 word) \<le> limit example_heap \<and>
   sizeof OSMWayNode * unat (1 :: 64 word) < 2 ^ 64 \<and>
   array_at example_heap 1 (sizeof OSMWayNode) (unat (1 :: 64 word)) \<and>
   (\<exists>h'. osmway_new example_heap 1 = Inr (h', fresh example_heap) \<and>
          record_at h' (fresh example_heap) (sizeof OSMWay) 0 = replicate (sizeof OSMWay) 0 \<and>
          member_val OSMWay (record_at h' (fresh example_heap) (sizeof OSMWay) 0) ''surface_'' = 0) \<and>
   (\<exists>h'. osmway_clear example_heap 1 1 = Inr h' \<and>
          record_at h' 1 (sizeof OSMWay) 0 = replicate (sizeof OSMWay) 0 \<and>
          member_val OSMWay (record_at h' 1 (sizeof OSMWay) 0) ''surface_'' = 0) \<and>
   (\<exists>h'. osmwaynode_new example_heap 1 = Inr (h', fresh example_heap) \<and>
          member_val OSMWayNode (record_at h' (fresh example_heap) (sizeof OSMWayNode) 0)
            ''way_index'' = 0 \<and>
          member_val OSMNode
            (embedded_node (record_at h' (fresh example_heap) (sizeof OSMWayNode) 0)) ''lat7_'' = 0) \<and>
   (\<exists>h'. osmwaynode_clear example_heap 1 1 = Inr h' \<and>
          member_val OSMWayNode (record_at h' 1 (sizeof OSMWayNode) 0) ''way_index'' = 0 \<and>
          member_val OSMNode (embedded_node (record_at h' 1 (sizeof OSMWayNode) 0)) ''lat7_'' = 0)"
proof -
  have i: "(0 :: nat) < unat (1 :: 64 word)" by simp
  have fr: "fresh example_heap = 416" "limit example_heap = 4096"
    "length (bytes example_heap) = 400"
    by (simp_all add: fresh_def example_heap_bytes example_heap_limit)
  have w: "fresh example_heap + sizeof OSMWay * unat (1 :: 64 word) \<le> limit example_heap"
    "sizeof OSMWay * unat (1 :: 64 word) < 2 ^ 64"
    "array_at example_heap 1 (sizeof OSMWay) (unat (1 :: 64 word))"
    by (simp_all add: fr array_at_def sizeof_OSMWay)
  have n: "fresh example_heap + sizeof OSMWayNode * unat (1 :: 64 word) \<le> limit example_heap"
    "sizeof OSMWayNode * unat (1 :: 64 word) < 2 ^ 64"
    "array_at example_heap 1 (sizeof OSMWayNode) (unat (1 :: 64 word))"
    by (simp_all add: fr array_at_def sizeof_OSMWayNode)
  have m: "''surface_'' \<in> set (map member_name OSMWay)"
    "''way_index'' \<in> set (map member_name OSMWayNode)"
    "''lat7_'' \<in> set (map member_name OSMNode)"
    by (simp_all add: OSMWay_def OSMWayNode_def OSMNode_def)
  note th = new_and_clear_zero_every_field[OF i, of example_heap 1]
  have a: "\<exists>h'. osmway_new example_heap 1 = Inr (h', fresh example_heap) \<and>
          record_at h' (fresh example_heap) (sizeof OSMWay) 0 = replicate (sizeof OSMWay) 0 \<and>
          member_val OSMWay (record_at h' (fresh example_heap) (sizeof OSMWay) 0) ''surface_'' = 0"
    using th w m(1) by blast
  have b: "\<exists>h'. osmway_clear example_heap 1 1 = Inr h' \<and>
          record_at h' 1 (sizeof OSMWay) 0 = replicate (sizeof OSMWay) 0 \<and>
          member_val OSMWay (record_at h' 1 (sizeof OSMWay) 0) ''surface_'' = 0"
    using th w m(1) by blast
  have c: "\<exists>h'. osmwaynode_new example_heap 1 = Inr (h', fresh example_heap) \<and>
          member_val OSMWayNode (record_at h' (fresh example_heap) (sizeof OSMWayNode) 0)
            ''way_index'' = 0 \<and>
          member_val OSMNode
            (embedded_node (record_at h' (fresh example_heap) (sizeof OSMWayNode) 0)) ''lat7_'' = 0"
    using th n m(2,3) by blast
  have d: "\<exists>h'. osmwaynode_clear example_heap 1 1 = Inr h' \<and>
          member_val OSMWayNode (record_at h' 1 (sizeof OSMWayNode) 0) ''way_index'' = 0 \<and>
          member_val OSMNode (embedded_node (record_at h' 1 (sizeof OSMWayNode) 0)) ''lat7_'' = 0"
    using th n m(2,3) by blast
  show ?thesis using i w n a b c d by blast
qed

section \<open>The Node accessors of a Way-shape-node array\<close>

lemma le_nat_drop: "le_nat (drop k bs) = drop_bit (8 * k) (le_nat bs)"
proof (induction bs arbitrary: k)
  case Nil show ?case by simp
next
  case (Cons b bs)
  show ?case
  proof (cases k)
    case 0 then show ?thesis by simp
  next
    case (Suc j)
    have "drop_bit (8 * Suc j) (unat b + 256 * le_nat bs) =
          drop_bit (8 * j) (drop_bit 8 (unat b + 256 * le_nat bs))"
      by (simp add: add.commute)
    also have "drop_bit 8 (unat b + 256 * le_nat bs) = le_nat bs"
      using unat_byte_less[of b] by (simp add: drop_bit_eq_div)
    finally show ?thesis using Suc Cons by simp
  qed
qed

lemma get_bits_drop: "get_bits obj (8 * k + p) w = get_bits (drop k obj) p w"
  by (simp add: get_bits_def le_nat_drop add.commute)

lemma field_way_index: "field OSMWayNode ''way_index'' = Some (8 * 48 + 0, 32)"
  "field OSMWayNode ''way_shape_node_index'' = Some (8 * 52 + 0, 32)"
  by (simp_all add: field_def OSMWayNode_layout)

lemma member_val_way_index:
  "member_val OSMWayNode r ''way_index'' = get_bits (drop 48 r) 0 32"
  "member_val OSMWayNode r ''way_shape_node_index'' = get_bits (drop 52 r) 0 32"
  unfolding member_val_def field_way_index option.case prod.case
  by (rule get_bits_drop)+

lemma drop_load: "drop k (load h p n) = load h (p + k) (n - k)"
  by (simp add: load_def drop_take add.commute)

lemma take_load: "m \<le> n \<Longrightarrow> take m (load h p n) = load h p m"
  by (simp add: load_def min_def)

lemma length_load_in: "p + n \<le> length (bytes h) \<Longrightarrow> length (load h p n) = n"
  by (simp add: load_def)

lemma node_address:
  "ptr_add (slot s index (sizeof OSMWayNode)) (offsetof OSMWayNode ''node'') =
     slot s index (sizeof OSMWayNode)"
  by (simp only: offsetof_node ptr_add_0[OF slot_less])

lemma set_node_at:
  assumes "array_at h (slot s index (sizeof OSMWayNode)) (sizeof OSMNode) 1"
    and "array_at h val (sizeof OSMNode) 1"
    and "apart val (slot s index (sizeof OSMWayNode)) (sizeof OSMNode)"
  shows "osmwaynode_set_node h s index val =
           Inr (store h (slot s index (sizeof OSMWayNode)) (load h val (sizeof OSMNode)))"
  using assms
  by (auto simp add: osmwaynode_set_node_def node_address memcpy_def valid_def array_at_def
      apart_def)

lemma get_node_at:
  assumes "array_at h (slot s index (sizeof OSMWayNode)) (sizeof OSMNode) 1"
    and "array_at h val (sizeof OSMNode) 1"
    and "apart val (slot s index (sizeof OSMWayNode)) (sizeof OSMNode)"
  shows "osmwaynode_get_node h s index val =
           Inr (store h val (load h (slot s index (sizeof OSMWayNode)) (sizeof OSMNode)))"
  using assms
  by (auto simp add: osmwaynode_get_node_def node_address memcpy_def valid_def array_at_def
      apart_def)

lemma slot_mapped:
  assumes "0 < s" "s + unat index * sizeof OSMWayNode + sizeof OSMNode \<le> length (bytes h)"
  shows "slot s index (sizeof OSMWayNode) = s + unat index * sizeof OSMWayNode"
proof -
  have "s + unat index * sizeof OSMWayNode + sizeof OSMNode \<le> 2 ^ 64"
    using assms(2) length_bytes[of h] by (rule le_trans)
  then show ?thesis by (intro slot_eq) (simp add: sizeof_OSMNode)
qed

lemma set_node_mapped:
  assumes s: "0 < s" "s + unat index * sizeof OSMWayNode + sizeof OSMNode \<le> length (bytes h)"
    and v: "array_at h val (sizeof OSMNode) 1"
    and a: "apart val (s + unat index * sizeof OSMWayNode) (sizeof OSMNode)"
  shows "osmwaynode_set_node h s index val =
           Inr (store h (s + unat index * sizeof OSMWayNode) (load h val (sizeof OSMNode)))"
  using set_node_at[of h s index val] assms
  by (simp add: slot_mapped[OF s] array_at_def)

lemma get_node_mapped:
  assumes s: "0 < s" "s + unat index * sizeof OSMWayNode + sizeof OSMNode \<le> length (bytes h)"
    and v: "array_at h val (sizeof OSMNode) 1"
    and a: "apart val (s + unat index * sizeof OSMWayNode) (sizeof OSMNode)"
  shows "osmwaynode_get_node h s index val =
           Inr (store h val (load h (s + unat index * sizeof OSMWayNode) (sizeof OSMNode)))"
  using get_node_at[of h s index val] assms
  by (simp add: slot_mapped[OF s] array_at_def)

lemma slot_node_bounds:
  assumes "array_at h s (sizeof OSMWayNode) n" "i < n"
  shows "0 < s" "s + i * sizeof OSMWayNode + sizeof OSMNode \<le> length (bytes h)"
  using slot_bounds[OF assms] assms(1)
  by (simp_all add: array_at_def sizeof_OSMWayNode sizeof_OSMNode)

text \<open>
  Claim C6. Let \<open>index\<close> be inside a Way-shape-node array, let \<open>val\<close> point to a Node and
  \<open>out\<close> to room for one (both mapped, neither overlapping the addressed slot's node).
  Then \<^verbatim>\<open>osmwaynode_set_node\<close> followed by \<^verbatim>\<open>osmwaynode_get_node\<close> at the same index returns
  and leaves at \<open>out\<close> the Node that was at \<open>val\<close>, byte for byte.
\<close>

theorem set_then_get_node:
  assumes "array_at h s (sizeof OSMWayNode) n" and "unat index < n"
    and "array_at h val (sizeof OSMNode) 1"
    and "apart val (s + unat index * sizeof OSMWayNode) (sizeof OSMNode)"
    and "array_at h out (sizeof OSMNode) 1"
    and "apart out (s + unat index * sizeof OSMWayNode) (sizeof OSMNode)"
  shows "\<exists>h1 h2. osmwaynode_set_node h s index val = Inr h1 \<and>
                 osmwaynode_get_node h1 s index out = Inr h2 \<and>
                 load h2 out (sizeof OSMNode) = load h val (sizeof OSMNode)"
proof -
  let ?dst = "s + unat index * sizeof OSMWayNode"
  let ?n = "load h val (sizeof OSMNode)"
  let ?h1 = "store h ?dst ?n"
  note b = slot_node_bounds[OF assms(1,2)]
  have ln: "length ?n = sizeof OSMNode"
    using assms(3) by (intro length_load_in) (simp add: array_at_def)
  have len1: "length (bytes ?h1) = length (bytes h)"
    using b ln by (simp add: length_store)
  have st: "osmwaynode_set_node h s index val = Inr ?h1"
    by (rule set_node_mapped[OF b assms(3,4)])
  have out1: "array_at ?h1 out (sizeof OSMNode) 1"
    using assms(5) len1 by (simp add: array_at_def)
  have b1: "s + unat index * sizeof OSMWayNode + sizeof OSMNode \<le> length (bytes ?h1)"
    using b len1 by simp
  have gt: "osmwaynode_get_node ?h1 s index out =
               Inr (store ?h1 out (load ?h1 ?dst (sizeof OSMNode)))"
    by (rule get_node_mapped[OF b(1) b1 out1 assms(6)])
  have rd: "load ?h1 ?dst (sizeof OSMNode) = ?n"
    using load_store_same[of ?dst ?n h] b ln by simp
  have "load (store ?h1 out ?n) out (sizeof OSMNode) = ?n"
    using load_store_same[of out ?n ?h1] out1 ln by (simp add: array_at_def)
  then show ?thesis using st gt rd by simp
qed

text \<open>
  Claim C9. Under the same conditions \<^verbatim>\<open>osmwaynode_set_node\<close> writes the node of slot
  \<open>index\<close> and nothing else: \<^verbatim>\<open>way_index\<close> and \<^verbatim>\<open>way_shape_node_index\<close> of that slot keep their
  values, every other slot of the array is unchanged, and so is every byte of memory
  outside the \<open>sizeof OSMNode\<close> bytes of the node.
\<close>

theorem set_node_frame:
  assumes "array_at h s (sizeof OSMWayNode) n" and "unat index < n"
    and "array_at h val (sizeof OSMNode) 1"
    and "apart val (s + unat index * sizeof OSMWayNode) (sizeof OSMNode)"
  shows "\<exists>h1. osmwaynode_set_node h s index val = Inr h1 \<and>
     embedded_node (record_at h1 s (sizeof OSMWayNode) (unat index)) = load h val (sizeof OSMNode) \<and>
     member_val OSMWayNode (record_at h1 s (sizeof OSMWayNode) (unat index)) ''way_index'' =
       member_val OSMWayNode (record_at h s (sizeof OSMWayNode) (unat index)) ''way_index'' \<and>
     member_val OSMWayNode (record_at h1 s (sizeof OSMWayNode) (unat index))
         ''way_shape_node_index'' =
       member_val OSMWayNode (record_at h s (sizeof OSMWayNode) (unat index))
         ''way_shape_node_index'' \<and>
     (\<forall>j<n. j \<noteq> unat index \<longrightarrow>
        record_at h1 s (sizeof OSMWayNode) j = record_at h s (sizeof OSMWayNode) j) \<and>
     (\<forall>a. a < s + unat index * sizeof OSMWayNode \<or>
          s + unat index * sizeof OSMWayNode + sizeof OSMNode \<le> a \<longrightarrow>
          bytes h1 ! a = bytes h ! a) \<and>
     length (bytes h1) = length (bytes h)"
proof -
  let ?i = "unat index"
  let ?dst = "s + ?i * sizeof OSMWayNode"
  let ?n = "load h val (sizeof OSMNode)"
  let ?h1 = "store h ?dst ?n"
  note b = slot_node_bounds[OF assms(1,2)]
  have ln: "length ?n = sizeof OSMNode"
    using assms(3) by (intro length_load_in) (simp add: array_at_def)
  have fit: "?dst + length ?n \<le> length (bytes h)" using b ln by simp
  have st: "osmwaynode_set_node h s index val = Inr ?h1"
    by (rule set_node_mapped[OF b assms(3,4)])
  have len1: "length (bytes ?h1) = length (bytes h)" using fit by (rule length_store)
  have node: "embedded_node (record_at ?h1 s (sizeof OSMWayNode) ?i) = ?n"
    using load_store_same[OF fit]
    by (simp add: embedded_node_def record_at_def offsetof_node take_load sizeof_OSMWayNode
        sizeof_OSMNode ln[unfolded sizeof_OSMNode])
  have tail: "drop k (record_at ?h1 s (sizeof OSMWayNode) ?i) =
              drop k (record_at h s (sizeof OSMWayNode) ?i)" if "48 \<le> k" for k
    using that ln load_store_other[OF fit, of "?dst + k" "sizeof OSMWayNode - k"]
    by (simp add: record_at_def drop_load sizeof_OSMNode)
  have others: "record_at ?h1 s (sizeof OSMWayNode) j = record_at h s (sizeof OSMWayNode) j"
    if "j \<noteq> ?i" for j
  proof -
    have "j < ?i \<or> ?i < j" using that by auto
    then have "Suc j \<le> ?i \<or> Suc ?i \<le> j" by auto
    then have "Suc j * 56 \<le> ?i * 56 \<or> Suc ?i * 56 \<le> j * 56" by auto
    then have "s + j * sizeof OSMWayNode + sizeof OSMWayNode \<le> ?dst \<or>
               ?dst + length ?n \<le> s + j * sizeof OSMWayNode"
      using ln by (auto simp add: sizeof_OSMWayNode sizeof_OSMNode)
    then show ?thesis
      using load_store_other[OF fit, of "s + j * sizeof OSMWayNode" "sizeof OSMWayNode"]
      by (simp add: record_at_def)
  qed
  have outside: "bytes ?h1 ! a = bytes h ! a"
    if "a < ?dst \<or> ?dst + sizeof OSMNode \<le> a" for a
    using that nth_store_other[OF fit, of a] by (simp add: ln)
  show ?thesis
    using st node tail[of 48] tail[of 52] others outside len1
    by (simp add: member_val_way_index)
qed

lemma mixed_heap_facts:
  "length (bytes mixed_heap) = 400"
  "array_at mixed_heap 1 (sizeof OSMWayNode) 2"
  "array_at mixed_heap 1 (sizeof OSMWayNode) 1"
  "array_at mixed_heap 200 (sizeof OSMNode) 1"
  "array_at mixed_heap 300 (sizeof OSMNode) 1"
  "apart 200 (1 + unat (1 :: 64 word) * sizeof OSMWayNode) (sizeof OSMNode)"
  "apart 300 (1 + unat (1 :: 64 word) * sizeof OSMWayNode) (sizeof OSMNode)"
  by (simp_all add: mixed_heap_bytes array_at_def apart_def sizeof_OSMWayNode sizeof_OSMNode)

theorem set_then_get_node_witness:
  "array_at mixed_heap 1 (sizeof OSMWayNode) 2 \<and> unat (1 :: 64 word) < 2 \<and>
   array_at mixed_heap 200 (sizeof OSMNode) 1 \<and>
   apart 200 (1 + unat (1 :: 64 word) * sizeof OSMWayNode) (sizeof OSMNode) \<and>
   array_at mixed_heap 300 (sizeof OSMNode) 1 \<and>
   apart 300 (1 + unat (1 :: 64 word) * sizeof OSMWayNode) (sizeof OSMNode) \<and>
   (\<exists>h1 h2. osmwaynode_set_node mixed_heap 1 1 200 = Inr h1 \<and>
            osmwaynode_get_node h1 1 1 300 = Inr h2 \<and>
            load h2 300 (sizeof OSMNode) = load mixed_heap 200 (sizeof OSMNode))"
proof -
  have i: "unat (1 :: 64 word) < 2" by simp
  show ?thesis
    using set_then_get_node[OF mixed_heap_facts(2) i mixed_heap_facts(4,6,5,7)]
      mixed_heap_facts i
    by blast
qed

theorem set_node_frame_witness:
  "array_at mixed_heap 1 (sizeof OSMWayNode) 2 \<and> unat (1 :: 64 word) < 2 \<and>
   array_at mixed_heap 200 (sizeof OSMNode) 1 \<and>
   apart 200 (1 + unat (1 :: 64 word) * sizeof OSMWayNode) (sizeof OSMNode) \<and>
   (\<exists>h1. osmwaynode_set_node mixed_heap 1 1 200 = Inr h1 \<and>
      embedded_node (record_at h1 1 (sizeof OSMWayNode) 1) = load mixed_heap 200 (sizeof OSMNode) \<and>
      member_val OSMWayNode (record_at h1 1 (sizeof OSMWayNode) 1) ''way_index'' =
        member_val OSMWayNode (record_at mixed_heap 1 (sizeof OSMWayNode) 1) ''way_index'' \<and>
      member_val OSMWayNode (record_at h1 1 (sizeof OSMWayNode) 1) ''way_shape_node_index'' =
        member_val OSMWayNode (record_at mixed_heap 1 (sizeof OSMWayNode) 1)
          ''way_shape_node_index'' \<and>
      record_at h1 1 (sizeof OSMWayNode) 0 = record_at mixed_heap 1 (sizeof OSMWayNode) 0 \<and>
      bytes h1 ! 105 = bytes mixed_heap ! 105 \<and>
      length (bytes h1) = length (bytes mixed_heap))"
proof -
  have i: "unat (1 :: 64 word) < 2" by simp
  have u: "unat (1 :: 64 word) = 1" by simp
  obtain h1 where h1: "osmwaynode_set_node mixed_heap 1 1 200 = Inr h1"
    "embedded_node (record_at h1 1 (sizeof OSMWayNode) (unat (1 :: 64 word))) =
       load mixed_heap 200 (sizeof OSMNode)"
    "member_val OSMWayNode (record_at h1 1 (sizeof OSMWayNode) (unat (1 :: 64 word))) ''way_index'' =
     member_val OSMWayNode (record_at mixed_heap 1 (sizeof OSMWayNode) (unat (1 :: 64 word)))
       ''way_index''"
    "member_val OSMWayNode (record_at h1 1 (sizeof OSMWayNode) (unat (1 :: 64 word)))
       ''way_shape_node_index'' =
     member_val OSMWayNode (record_at mixed_heap 1 (sizeof OSMWayNode) (unat (1 :: 64 word)))
       ''way_shape_node_index''"
    "\<forall>j<2. j \<noteq> unat (1 :: 64 word) \<longrightarrow>
        record_at h1 1 (sizeof OSMWayNode) j = record_at mixed_heap 1 (sizeof OSMWayNode) j"
    "\<forall>a. a < 1 + unat (1 :: 64 word) * sizeof OSMWayNode \<or>
          1 + unat (1 :: 64 word) * sizeof OSMWayNode + sizeof OSMNode \<le> a \<longrightarrow>
          bytes h1 ! a = bytes mixed_heap ! a"
    "length (bytes h1) = length (bytes mixed_heap)"
    using set_node_frame[OF mixed_heap_facts(2) i mixed_heap_facts(4,6)] by blast
  have r0: "record_at h1 1 (sizeof OSMWayNode) 0 = record_at mixed_heap 1 (sizeof OSMWayNode) 0"
    using h1(5) by (simp add: u)
  have b105: "bytes h1 ! 105 = bytes mixed_heap ! 105"
    using h1(6) by (simp add: u sizeof_OSMWayNode sizeof_OSMNode)
  show ?thesis
    using mixed_heap_facts(2,4,6) i h1(1,2,3,4,7) r0 b105 unfolding u
    by (intro conjI exI[of _ h1]) simp_all
qed

text \<open>Claim C7 as stated: an index at or beyond the count makes every accessor fail with
  a bounds error instead of touching adjacent memory. In a Way-shape-node array of one
  record at address 1, \<^verbatim>\<open>osmwaynode_set_node\<close> at index 1 returns normally and the byte at
  address 57, the first one past the array, has changed from 42 to 7.\<close>

theorem accessor_bounds_counterexample:
  "array_at mixed_heap 1 (sizeof OSMWayNode) 1 \<and> (1 :: nat) \<le> unat (1 :: 64 word) \<and>
   \<not> isl (osmwaynode_set_node mixed_heap 1 1 200) \<and>
   1 + 1 * sizeof OSMWayNode \<le> (57 :: nat) \<and>
   bytes mixed_heap ! 57 = 42 \<and>
   bytes (projr (osmwaynode_set_node mixed_heap 1 1 200)) ! 57 = 7"
proof -
  have b: "0 < (1 :: nat)"
    "1 + unat (1 :: 64 word) * sizeof OSMWayNode + sizeof OSMNode \<le> length (bytes mixed_heap)"
    by (simp_all add: mixed_heap_facts(1) sizeof_OSMWayNode sizeof_OSMNode)
  note run = set_node_mapped[OF b mixed_heap_facts(4,6)]
  have ld: "load mixed_heap 200 (sizeof OSMNode) = replicate 48 7"
    by (simp add: load_def mixed_heap_bytes sizeof_OSMNode)
  have old: "bytes mixed_heap ! 57 = 42"
    by (simp add: mixed_heap_bytes nth_append)
  have fit: "57 + length (replicate 48 (7 :: byte)) \<le> length (bytes mixed_heap)"
    by (simp add: mixed_heap_bytes)
  have new: "bytes (store mixed_heap (1 + unat (1 :: 64 word) * sizeof OSMWayNode)
                 (load mixed_heap 200 (sizeof OSMNode))) ! 57 = 7"
    unfolding ld using bytes_store[OF fit]
    by (simp add: mixed_heap_bytes sizeof_OSMWayNode nth_append)
  show ?thesis
    unfolding run sum.sel sum.disc
    using mixed_heap_facts(3) old new by (simp add: sizeof_OSMWayNode)
qed

lemma set_node_unmapped:
  assumes "\<not> array_at h (slot s index (sizeof OSMWayNode)) (sizeof OSMNode) 1"
  shows "osmwaynode_set_node h s index val =
           Inl (bad_access (slot s index (sizeof OSMWayNode)))"
  using assms
  by (simp add: osmwaynode_set_node_def node_address memcpy_def valid_def array_at_def
      sizeof_OSMNode)

lemma get_node_unmapped:
  assumes "\<not> array_at h (slot s index (sizeof OSMWayNode)) (sizeof OSMNode) 1"
    "array_at h val (sizeof OSMNode) 1"
  shows "osmwaynode_get_node h s index val =
           Inl (bad_access (slot s index (sizeof OSMWayNode)))"
  using assms
  by (simp add: osmwaynode_get_node_def node_address memcpy_def valid_def array_at_def
      sizeof_OSMNode)

lemma set_to_valhalla_unmapped:
  assumes "\<not> array_at h (slot s index (sizeof OSMWay)) (sizeof OSMWay) 1"
  shows "osmway_set_to_valhalla h s index osmid name_index nodecount =
           Inl (bad_access (slot s index (sizeof OSMWay)))"
proof -
  have "\<not> valid h (slot s index (sizeof OSMWay)) (sizeof OSMWay)"
    using assms by (simp add: valid_def array_at_def sizeof_OSMWay)
  then have "memset h (slot s index (sizeof OSMWay)) 0 (sizeof OSMWay) =
               Inl (bad_access (slot s index (sizeof OSMWay)))"
    by (simp add: memset_def)
  then show ?thesis by (simp only: osmway_set_to_valhalla_def sum.case)
qed

lemma waynode_set_to_valhalla_unmapped:
  assumes "\<not> array_at h (slot s index (sizeof OSMWayNode)) (sizeof OSMWayNode) 1"
  shows "osmwaynode_set_to_valhalla f h s index wi wsi osmid lng7 lat7 xing =
           Inl (bad_access (slot s index (sizeof OSMWayNode)))"
proof -
  have "\<not> valid h (slot s index (sizeof OSMWayNode)) (sizeof OSMWayNode)"
    using assms by (simp add: valid_def array_at_def sizeof_OSMWayNode)
  then have "memset h (slot s index (sizeof OSMWayNode)) 0 (sizeof OSMWayNode) =
               Inl (bad_access (slot s index (sizeof OSMWayNode)))"
    by (simp add: memset_def)
  then show ?thesis by (simp only: osmwaynode_set_to_valhalla_def sum.case)
qed

lemma waynode_set_to_valhalla_at:
  assumes "array_at h (slot s index (sizeof OSMWayNode)) (sizeof OSMWayNode) 1"
  shows "osmwaynode_set_to_valhalla f h s index wi wsi osmid lng7 lat7 xing =
           f (store h (slot s index (sizeof OSMWayNode)) (indexed_waynode (unat wi) (unat wsi)))
             (slot s index (sizeof OSMWayNode)) 0 osmid lng7 lat7 xing"
proof -
  let ?a = "slot s index (sizeof OSMWayNode)"
  let ?sz = "sizeof OSMWayNode"
  have b: "0 < ?a" "?a + ?sz \<le> length (bytes h)" using assms by (simp_all add: array_at_def)
  have v: "valid h ?a ?sz" using b by (simp add: valid_def)
  have ms: "memset h ?a 0 ?sz = Inr (store h ?a (replicate ?sz 0))"
    using v by (simp add: memset_def)
  show ?thesis
    unfolding osmwaynode_set_to_valhalla_def ms sum.case
    by (simp only: assigns_ok[OF b length_replicate] indexed_waynode_def sum.case node_address)
qed

lemma way_slot_mapped:
  assumes "array_at h s sz n" "unat index < n" "0 < sz"
  shows "array_at h (slot s index sz) sz 1"
  using slot_bounds[OF assms(1,2)] slot_in_array[OF assms]
  by (simp add: array_at_def)

lemma node_slot_mapped:
  assumes "array_at h s (sizeof OSMWayNode) n" "unat index < n"
  shows "array_at h (slot s index (sizeof OSMWayNode)) (sizeof OSMNode) 1"
proof -
  have "array_at h (slot s index (sizeof OSMWayNode)) (sizeof OSMWayNode) 1"
    using assms by (rule way_slot_mapped) (simp add: sizeof_OSMWayNode)
  then show ?thesis by (simp add: array_at_def sizeof_OSMWayNode sizeof_OSMNode)
qed

text \<open>
  Claim C7, as amended. The accessors (\<^verbatim>\<open>osmwaynode_set_node\<close>, \<^verbatim>\<open>osmwaynode_get_node\<close>,
  \<^verbatim>\<open>osmway_set_to_valhalla\<close>, \<^verbatim>\<open>osmwaynode_set_to_valhalla\<close>) take no count and return no error.
  For an index below the count \<open>N\<close> of the array, the addressed slot is slot \<open>index\<close> of the
  array; \<^verbatim>\<open>set_node\<close>, \<^verbatim>\<open>get_node\<close> and the Way setter succeed, and the Way-shape-node setter
  zeroes the slot, stores its two indices and returns what \<^verbatim>\<open>osmnode_set_to_valhalla\<close>
  (the parameter \<open>f\<close>) returns for the embedded node. For any other index no bounds
  error is reported either: the access is made at \<open>slot s index sizeof\<close>, the address
  \<open>s + index * sizeof\<close> modulo \<open>2 ^ 64\<close>. Where that memory is mapped the call goes through
  just the same, reading or writing what lies there; where it is not, the process
  faults. When the address does not wrap around, the slot of an index at or beyond \<open>N\<close>
  starts at or past the end of the array. (\<open>val\<close> points to a mapped Node, and for
  \<^verbatim>\<open>set_node\<close> and \<^verbatim>\<open>get_node\<close> to succeed it must not overlap the addressed node.)
\<close>

theorem accessors_have_no_bounds_check:
  assumes "array_at h val (sizeof OSMNode) 1"
  shows
    "(array_at h s (sizeof OSMWayNode) N \<and> unat index < N \<and>
      apart val (s + unat index * sizeof OSMWayNode) (sizeof OSMNode) \<longrightarrow>
        slot s index (sizeof OSMWayNode) = s + unat index * sizeof OSMWayNode \<and>
        (\<exists>h'. osmwaynode_set_node h s index val = Inr h') \<and>
        (\<exists>h'. osmwaynode_get_node h s index val = Inr h'))
   \<and> (array_at h s (sizeof OSMWay) N \<and> unat index < N \<longrightarrow>
        slot s index (sizeof OSMWay) = s + unat index * sizeof OSMWay \<and>
        (\<exists>h'. osmway_set_to_valhalla h s index osmid name_index nodecount = Inr h'))
   \<and> (array_at h s (sizeof OSMWayNode) N \<and> unat index < N \<longrightarrow>
        osmwaynode_set_to_valhalla f h s index wi wsi osmid lng7 lat7 xing =
          f (store h (s + unat index * sizeof OSMWayNode)
               (indexed_waynode (unat wi) (unat wsi)))
            (s + unat index * sizeof OSMWayNode) 0 osmid lng7 lat7 xing)
   \<and> (array_at h (slot s index (sizeof OSMWayNode)) (sizeof OSMNode) 1 \<and>
      apart val (slot s index (sizeof OSMWayNode)) (sizeof OSMNode) \<longrightarrow>
        osmwaynode_set_node h s index val =
          Inr (store h (slot s index (sizeof OSMWayNode)) (load h val (sizeof OSMNode))) \<and>
        osmwaynode_get_node h s index val =
          Inr (store h val (load h (slot s index (sizeof OSMWayNode)) (sizeof OSMNode))))
   \<and> (array_at h (slot s index (sizeof OSMWay)) (sizeof OSMWay) 1 \<longrightarrow>
        osmway_set_to_valhalla h s index osmid name_index nodecount =
          Inr (store h (slot s index (sizeof OSMWay))
                 (valhalla_way (unat osmid) (unat name_index) (unat nodecount))))
   \<and> (array_at h (slot s index (sizeof OSMWayNode)) (sizeof OSMWayNode) 1 \<longrightarrow>
        osmwaynode_set_to_valhalla f h s index wi wsi osmid lng7 lat7 xing =
          f (store h (slot s index (sizeof OSMWayNode)) (indexed_waynode (unat wi) (unat wsi)))
            (slot s index (sizeof OSMWayNode)) 0 osmid lng7 lat7 xing)
   \<and> (\<not> array_at h (slot s index (sizeof OSMWayNode)) (sizeof OSMNode) 1 \<longrightarrow>
        osmwaynode_set_node h s index val =
          Inl (bad_access (slot s index (sizeof OSMWayNode))) \<and>
        osmwaynode_get_node h s index val =
          Inl (bad_access (slot s index (sizeof OSMWayNode))))
   \<and> (\<not> array_at h (slot s index (sizeof OSMWay)) (sizeof OSMWay) 1 \<longrightarrow>
        osmway_set_to_valhalla h s index osmid name_index nodecount =
          Inl (bad_access (slot s index (sizeof OSMWay))))
   \<and> (\<not> array_at h (slot s index (sizeof OSMWayNode)) (sizeof OSMWayNode) 1 \<longrightarrow>
        osmwaynode_set_to_valhalla f h s index wi wsi osmid lng7 lat7 xing =
          Inl (bad_access (slot s index (sizeof OSMWayNode))))
   \<and> (N \<le> unat index \<and> s + unat index * sz < 2 ^ 64 \<longrightarrow>
        slot s index sz = s + unat index * sz \<and> s + N * sz \<le> slot s index sz)"
proof -
  have c1: "slot s index (sizeof OSMWayNode) = s + unat index * sizeof OSMWayNode \<and>
        (\<exists>h'. osmwaynode_set_node h s index val = Inr h') \<and>
        (\<exists>h'. osmwaynode_get_node h s index val = Inr h')"
    if a: "array_at h s (sizeof OSMWayNode) N" "unat index < N"
      and ap: "apart val (s + unat index * sizeof OSMWayNode) (sizeof OSMNode)"
  proof -
    have sl: "slot s index (sizeof OSMWayNode) = s + unat index * sizeof OSMWayNode"
      using a by (rule slot_in_array) (simp add: sizeof_OSMWayNode)
    have ap': "apart val (slot s index (sizeof OSMWayNode)) (sizeof OSMNode)"
      using ap by (simp only: sl)
    show ?thesis
      using sl set_node_at[OF node_slot_mapped[OF a] assms ap']
        get_node_at[OF node_slot_mapped[OF a] assms ap'] by simp
  qed
  have c2: "slot s index (sizeof OSMWay) = s + unat index * sizeof OSMWay \<and>
        (\<exists>h'. osmway_set_to_valhalla h s index osmid name_index nodecount = Inr h')"
    if a: "array_at h s (sizeof OSMWay) N" "unat index < N"
    using slot_in_array[OF a] osmway_set_to_valhalla_ok[OF a, of osmid name_index nodecount]
    by (simp add: sizeof_OSMWay)
  have c3: "osmwaynode_set_to_valhalla f h s index wi wsi osmid lng7 lat7 xing =
          f (store h (s + unat index * sizeof OSMWayNode)
               (indexed_waynode (unat wi) (unat wsi)))
            (s + unat index * sizeof OSMWayNode) 0 osmid lng7 lat7 xing"
    if a: "array_at h s (sizeof OSMWayNode) N" "unat index < N"
  proof -
    have z: "0 < sizeof OSMWayNode" by (simp add: sizeof_OSMWayNode)
    show ?thesis
      using waynode_set_to_valhalla_at[OF way_slot_mapped[OF a z],
          of f wi wsi osmid lng7 lat7 xing]
      by (simp only: slot_in_array[OF a z])
  qed
  have c10: "slot s index sz = s + unat index * sz \<and> s + N * sz \<le> slot s index sz"
    if "N \<le> unat index" "s + unat index * sz < 2 ^ 64"
    using that by (simp add: slot_eq)
  show ?thesis
    using c1 c2 c3 c10 set_node_at[OF _ assms, of s index] get_node_at[OF _ assms, of s index]
      set_to_valhalla_at[of s index h osmid name_index nodecount]
      waynode_set_to_valhalla_at[of h s index f wi wsi osmid lng7 lat7 xing]
      set_node_unmapped[of h s index val] get_node_unmapped[OF _ assms, of s index]
      set_to_valhalla_unmapped[of h s index osmid name_index nodecount]
      waynode_set_to_valhalla_unmapped[of h s index f wi wsi osmid lng7 lat7 xing]
    by (intro conjI impI) (simp_all add: array_at_def)
qed

lemma example_slots:
  "slot 1 1 (sizeof OSMWayNode) = 57"
  "slot 57 18446744073709551615 (sizeof OSMWayNode) = 1"
  "slot 1 100 (sizeof OSMWayNode) = 5601"
  "slot 1 0 (sizeof OSMWay) = 1"
  "slot 1 1 (sizeof OSMWay) = 321"
  by (simp_all add: slot_def ptr_add_def sizeof_OSMWayNode sizeof_OSMWay)

theorem accessors_have_no_bounds_check_witness:
  "array_at mixed_heap 200 (sizeof OSMNode) 1 \<and>
   array_at mixed_heap 1 (sizeof OSMWayNode) 2 \<and> unat (1 :: 64 word) < 2 \<and>
   apart 200 (1 + unat (1 :: 64 word) * sizeof OSMWayNode) (sizeof OSMNode) \<and>
   (\<exists>h'. osmwaynode_set_node mixed_heap 1 1 200 = Inr h') \<and>
   (\<exists>h'. osmwaynode_get_node mixed_heap 1 1 200 = Inr h') \<and>
   osmwaynode_set_to_valhalla (\<lambda>h a i osmid lng7 lat7 xing. Inr h) mixed_heap 1 1 5 6 42 0 0 0 =
     Inr (store mixed_heap (1 + unat (1 :: 64 word) * sizeof OSMWayNode)
            (indexed_waynode (unat (5 :: 64 word)) (unat (6 :: 64 word)))) \<and>
   array_at example_heap 200 (sizeof OSMNode) 1 \<and>
   array_at example_heap 1 (sizeof OSMWay) 1 \<and> unat (0 :: 64 word) < 1 \<and>
   (\<exists>h'. osmway_set_to_valhalla example_heap 1 0 42 7 3 = Inr h') \<and>
   array_at mixed_heap 1 (sizeof OSMWayNode) 1 \<and> 1 \<le> unat (1 :: 64 word) \<and>
   1 + unat (1 :: 64 word) * sizeof OSMWayNode < (2 :: nat) ^ 64 \<and>
   1 + 1 * sizeof OSMWayNode \<le> slot 1 1 (sizeof OSMWayNode) \<and>
   array_at mixed_heap (slot 1 1 (sizeof OSMWayNode)) (sizeof OSMNode) 1 \<and>
   apart 200 (slot 1 1 (sizeof OSMWayNode)) (sizeof OSMNode) \<and>
   osmwaynode_set_node mixed_heap 1 1 200 =
     Inr (store mixed_heap 57 (load mixed_heap 200 (sizeof OSMNode))) \<and>
   slot 57 18446744073709551615 (sizeof OSMWayNode) = 1 \<and>
   array_at mixed_heap (slot 57 18446744073709551615 (sizeof OSMWayNode)) (sizeof OSMNode) 1 \<and>
   apart 200 (slot 57 18446744073709551615 (sizeof OSMWayNode)) (sizeof OSMNode) \<and>
   osmwaynode_set_node mixed_heap 57 18446744073709551615 200 =
     Inr (store mixed_heap 1 (load mixed_heap 200 (sizeof OSMNode))) \<and>
   \<not> array_at mixed_heap (slot 1 100 (sizeof OSMWayNode)) (sizeof OSMNode) 1 \<and>
   osmwaynode_set_node mixed_heap 1 100 200 = Inl Unmapped \<and>
   osmwaynode_get_node mixed_heap 1 100 200 = Inl Unmapped \<and>
   \<not> array_at mixed_heap (slot 1 100 (sizeof OSMWayNode)) (sizeof OSMWayNode) 1 \<and>
   osmwaynode_set_to_valhalla (\<lambda>h a i osmid lng7 lat7 xing. Inr h) mixed_heap 1 100 5 6 42 0 0 0 =
     Inl Unmapped \<and>
   \<not> array_at example_heap (slot 1 1 (sizeof OSMWay)) (sizeof OSMWay) 1 \<and>
   osmway_set_to_valhalla example_heap 1 1 42 7 3 = Inl Unmapped \<and>
   array_at example_heap (slot 1 0 (sizeof OSMWay)) (sizeof OSMWay) 1 \<and>
   osmway_set_to_valhalla example_heap 1 0 42 7 3 =
     Inr (store example_heap 1
            (valhalla_way (unat (42 :: 64 word)) (unat (7 :: 64 word)) (unat (3 :: 64 word)))) \<and>
   array_at mixed_heap (slot 1 1 (sizeof OSMWayNode)) (sizeof OSMWayNode) 1 \<and>
   osmwaynode_set_to_valhalla (\<lambda>h a i osmid lng7 lat7 xing. Inr h) mixed_heap 1 1 5 6 42 0 0 0 =
     Inr (store mixed_heap 57 (indexed_waynode (unat (5 :: 64 word)) (unat (6 :: 64 word))))"
proof -
  have i: "unat (1 :: 64 word) < 2" "1 \<le> unat (1 :: 64 word)" "unat (0 :: 64 word) < 1"
    "1 + unat (1 :: 64 word) * sizeof OSMWayNode < (2 :: nat) ^ 64"
    by (simp_all add: sizeof_OSMWayNode)
  have u: "1 + unat (1 :: 64 word) * sizeof OSMWayNode = 57"
    by (simp add: sizeof_OSMWayNode)
  have m: "array_at mixed_heap (slot 1 1 (sizeof OSMWayNode)) (sizeof OSMNode) 1"
    "apart 200 (slot 1 1 (sizeof OSMWayNode)) (sizeof OSMNode)"
    "array_at mixed_heap (slot 57 18446744073709551615 (sizeof OSMWayNode)) (sizeof OSMNode) 1"
    "apart 200 (slot 57 18446744073709551615 (sizeof OSMWayNode)) (sizeof OSMNode)"
    "\<not> array_at mixed_heap (slot 1 100 (sizeof OSMWayNode)) (sizeof OSMNode) 1"
    "\<not> array_at mixed_heap (slot 1 100 (sizeof OSMWayNode)) (sizeof OSMWayNode) 1"
    "array_at mixed_heap (slot 1 1 (sizeof OSMWayNode)) (sizeof OSMWayNode) 1"
    unfolding example_slots
    by (simp_all add: array_at_def apart_def mixed_heap_facts(1) sizeof_OSMNode
        sizeof_OSMWayNode)
  have e: "array_at example_heap 200 (sizeof OSMNode) 1"
    "array_at example_heap 1 (sizeof OSMWay) 1"
    "\<not> array_at example_heap (slot 1 1 (sizeof OSMWay)) (sizeof OSMWay) 1"
    "array_at example_heap (slot 1 0 (sizeof OSMWay)) (sizeof OSMWay) 1"
    unfolding example_slots
    by (simp_all add: array_at_def example_heap_bytes sizeof_OSMNode sizeof_OSMWay)
  have bad: "bad_access 5601 = Unmapped" "bad_access 321 = Unmapped"
    by (simp_all add: bad_access_def)
  note mh = accessors_have_no_bounds_check[OF mixed_heap_facts(4)]
  note eh = accessors_have_no_bounds_check[OF e(1)]
  have a: "(\<exists>h'. osmwaynode_set_node mixed_heap 1 1 200 = Inr h') \<and>
           (\<exists>h'. osmwaynode_get_node mixed_heap 1 1 200 = Inr h')"
    using mh[where s=1 and index=1 and N=2] mixed_heap_facts(2,6) i(1) by blast
  have b: "osmwaynode_set_to_valhalla (\<lambda>h a i osmid lng7 lat7 xing. Inr h) mixed_heap 1 1 5 6 42 0 0 0 =
     Inr (store mixed_heap (1 + unat (1 :: 64 word) * sizeof OSMWayNode)
            (indexed_waynode (unat (5 :: 64 word)) (unat (6 :: 64 word))))"
    using mh[where s=1 and index=1 and N=2 and f="\<lambda>h a i osmid lng7 lat7 xing. Inr h"
        and wi=5 and wsi=6 and osmid=42 and ?lng7.0=0 and ?lat7.0=0 and xing=0]
      mixed_heap_facts(2) i(1) by blast
  have c: "\<exists>h'. osmway_set_to_valhalla example_heap 1 0 42 7 3 = Inr h'"
    using eh[where s=1 and index=0 and N=1 and osmid=42 and name_index=7 and nodecount=3]
      e(2) i(3) by blast
  have d: "1 + 1 * sizeof OSMWayNode \<le> slot 1 1 (sizeof OSMWayNode)"
    by (simp only: example_slots) (simp add: sizeof_OSMWayNode)
  have "osmwaynode_set_node mixed_heap 1 1 200 =
     Inr (store mixed_heap (slot 1 1 (sizeof OSMWayNode)) (load mixed_heap 200 (sizeof OSMNode)))"
    using mh[where s=1 and index=1] m(1,2) by blast
  then have f: "osmwaynode_set_node mixed_heap 1 1 200 =
     Inr (store mixed_heap 57 (load mixed_heap 200 (sizeof OSMNode)))"
    by (simp only: example_slots)
  have "osmwaynode_set_node mixed_heap 57 18446744073709551615 200 =
     Inr (store mixed_heap (slot 57 18446744073709551615 (sizeof OSMWayNode))
            (load mixed_heap 200 (sizeof OSMNode)))"
    using mh[where s=57 and index=18446744073709551615] m(3,4) by blast
  then have g: "osmwaynode_set_node mixed_heap 57 18446744073709551615 200 =
     Inr (store mixed_heap 1 (load mixed_heap 200 (sizeof OSMNode)))"
    by (simp only: example_slots)
  have "osmwaynode_set_node mixed_heap 1 100 200 =
          Inl (bad_access (slot 1 100 (sizeof OSMWayNode))) \<and>
        osmwaynode_get_node mixed_heap 1 100 200 =
          Inl (bad_access (slot 1 100 (sizeof OSMWayNode)))"
    using mh[where s=1 and index=100] m(5) by blast
  then have k: "osmwaynode_set_node mixed_heap 1 100 200 = Inl Unmapped \<and>
           osmwaynode_get_node mixed_heap 1 100 200 = Inl Unmapped"
    by (simp only: example_slots bad)
  have "osmwaynode_set_to_valhalla (\<lambda>h a i osmid lng7 lat7 xing. Inr h) mixed_heap 1 100 5 6 42 0 0 0 =
     Inl (bad_access (slot 1 100 (sizeof OSMWayNode)))"
    using mh[where s=1 and index=100 and f="\<lambda>h a i osmid lng7 lat7 xing. Inr h"
        and wi=5 and wsi=6 and osmid=42 and ?lng7.0=0 and ?lat7.0=0 and xing=0] m(6)
    by blast
  then have l: "osmwaynode_set_to_valhalla (\<lambda>h a i osmid lng7 lat7 xing. Inr h) mixed_heap 1 100 5 6 42 0 0 0 =
     Inl Unmapped"
    by (simp only: example_slots bad)
  have "osmway_set_to_valhalla example_heap 1 1 42 7 3 =
          Inl (bad_access (slot 1 1 (sizeof OSMWay)))"
    using eh[where s=1 and index=1 and osmid=42 and name_index=7 and nodecount=3] e(3)
    by blast
  then have n: "osmway_set_to_valhalla example_heap 1 1 42 7 3 = Inl Unmapped"
    by (simp only: example_slots bad)
  have "osmway_set_to_valhalla example_heap 1 0 42 7 3 =
     Inr (store example_heap (slot 1 0 (sizeof OSMWay))
            (valhalla_way (unat (42 :: 64 word)) (unat (7 :: 64 word)) (unat (3 :: 64 word))))"
    using eh[where s=1 and index=0 and osmid=42 and name_index=7 and nodecount=3] e(4)
    by blast
  then have p: "osmway_set_to_valhalla example_heap 1 0 42 7 3 =
     Inr (store example_heap 1
            (valhalla_way (unat (42 :: 64 word)) (unat (7 :: 64 word)) (unat (3 :: 64 word))))"
    by (simp only: example_slots)
  have q: "osmwaynode_set_to_valhalla (\<lambda>h a i osmid lng7 lat7 xing. Inr h) mixed_heap 1 1 5 6 42 0 0 0 =
     Inr (store mixed_heap 57 (indexed_waynode (unat (5 :: 64 word)) (unat (6 :: 64 word))))"
    using b by (simp only: u)
  show ?thesis
    using mixed_heap_facts(2,3,4,6) i m e example_slots(2) a b c d f g k l n p q
    by (intro conjI; blast)
qed

end
